theory Spec2Isabelle
  imports Complex_Main
begin

section \<open>JavaScript numbers\<close>

text \<open>
  A JavaScript number is modelled as a real number or one of the three special values
  of IEEE 754. Arithmetic on finite values is exact (no rounding, no overflow) and the
  two zeros are one value; the special values follow IEEE 754, so a division by zero is
  \<open>PInf\<close>, \<open>NInf\<close> or \<open>NaN\<close> and every comparison with \<open>NaN\<close> is false.
\<close>

datatype jsnum = Fin real | PInf | NInf | NaN

instantiation jsnum :: "{uminus,plus,minus,times,inverse,ord}"
begin

fun uminus_jsnum :: "jsnum \<Rightarrow> jsnum" where
  "uminus_jsnum (Fin a) = Fin (- a)"
| "uminus_jsnum PInf = NInf"
| "uminus_jsnum NInf = PInf"
| "uminus_jsnum NaN = NaN"

fun plus_jsnum :: "jsnum \<Rightarrow> jsnum \<Rightarrow> jsnum" where
  "plus_jsnum (Fin a) (Fin b) = Fin (a + b)"
| "plus_jsnum NaN _ = NaN"
| "plus_jsnum _ NaN = NaN"
| "plus_jsnum PInf NInf = NaN"
| "plus_jsnum NInf PInf = NaN"
| "plus_jsnum PInf _ = PInf"
| "plus_jsnum _ PInf = PInf"
| "plus_jsnum NInf _ = NInf"
| "plus_jsnum _ NInf = NInf"

definition minus_jsnum :: "jsnum \<Rightarrow> jsnum \<Rightarrow> jsnum" where
  "minus_jsnum a b = a + (- b)"

fun times_jsnum :: "jsnum \<Rightarrow> jsnum \<Rightarrow> jsnum" where
  "times_jsnum (Fin a) (Fin b) = Fin (a * b)"
| "times_jsnum NaN _ = NaN"
| "times_jsnum _ NaN = NaN"
| "times_jsnum (Fin a) PInf = (if a = 0 then NaN else if 0 < a then PInf else NInf)"
| "times_jsnum (Fin a) NInf = (if a = 0 then NaN else if 0 < a then NInf else PInf)"
| "times_jsnum PInf (Fin b) = (if b = 0 then NaN else if 0 < b then PInf else NInf)"
| "times_jsnum NInf (Fin b) = (if b = 0 then NaN else if 0 < b then NInf else PInf)"
| "times_jsnum PInf PInf = PInf"
| "times_jsnum PInf NInf = NInf"
| "times_jsnum NInf PInf = NInf"
| "times_jsnum NInf NInf = PInf"

fun divide_jsnum :: "jsnum \<Rightarrow> jsnum \<Rightarrow> jsnum" where
  "divide_jsnum (Fin a) (Fin b) =
     (if b = 0 then (if a = 0 then NaN else if 0 < a then PInf else NInf)
      else Fin (a / b))"
| "divide_jsnum NaN _ = NaN"
| "divide_jsnum _ NaN = NaN"
| "divide_jsnum (Fin a) PInf = Fin 0"
| "divide_jsnum (Fin a) NInf = Fin 0"
| "divide_jsnum PInf (Fin b) = (if 0 \<le> b then PInf else NInf)"
| "divide_jsnum NInf (Fin b) = (if 0 \<le> b then NInf else PInf)"
| "divide_jsnum PInf PInf = NaN"
| "divide_jsnum PInf NInf = NaN"
| "divide_jsnum NInf PInf = NaN"
| "divide_jsnum NInf NInf = NaN"

definition inverse_jsnum :: "jsnum \<Rightarrow> jsnum" where
  "inverse_jsnum a = divide (Fin 1) a"

fun less_jsnum :: "jsnum \<Rightarrow> jsnum \<Rightarrow> bool" where
  "less_jsnum (Fin a) (Fin b) = (a < b)"
| "less_jsnum NaN _ = False"
| "less_jsnum _ NaN = False"
| "less_jsnum _ NInf = False"
| "less_jsnum PInf _ = False"
| "less_jsnum NInf _ = True"
| "less_jsnum _ PInf = True"

fun less_eq_jsnum :: "jsnum \<Rightarrow> jsnum \<Rightarrow> bool" where
  "less_eq_jsnum (Fin a) (Fin b) = (a \<le> b)"
| "less_eq_jsnum NaN _ = False"
| "less_eq_jsnum _ NaN = False"
| "less_eq_jsnum NInf _ = True"
| "less_eq_jsnum _ PInf = True"
| "less_eq_jsnum _ NInf = False"
| "less_eq_jsnum PInf _ = False"

instance ..

end

text \<open>\<open>a === b\<close> on numbers: \<open>NaN\<close> equals nothing, itself included.\<close>

definition strict_eq :: "jsnum \<Rightarrow> jsnum \<Rightarrow> bool" where
  "strict_eq a b = (a \<noteq> NaN \<and> b \<noteq> NaN \<and> a = b)"

text \<open>A number is falsy when it is zero or \<open>NaN\<close>; \<open>a || b\<close> is \<open>a\<close> unless it is falsy.\<close>

definition truthy :: "jsnum \<Rightarrow> bool" where
  "truthy a = (a \<noteq> Fin 0 \<and> a \<noteq> NaN)"

definition js_or :: "jsnum \<Rightarrow> jsnum \<Rightarrow> jsnum" where
  "js_or a b = (if truthy a then a else b)"

fun isFinite :: "jsnum \<Rightarrow> bool" where
  "isFinite (Fin a) = True"
| "isFinite _ = False"

fun Math_sqrt :: "jsnum \<Rightarrow> jsnum" where
  "Math_sqrt (Fin a) = (if a < 0 then NaN else Fin (sqrt a))"
| "Math_sqrt PInf = PInf"
| "Math_sqrt NInf = NaN"
| "Math_sqrt NaN = NaN"

fun Math_abs :: "jsnum \<Rightarrow> jsnum" where
  "Math_abs (Fin a) = Fin \<bar>a\<bar>"
| "Math_abs PInf = PInf"
| "Math_abs NInf = PInf"
| "Math_abs NaN = NaN"

definition Math_max :: "jsnum \<Rightarrow> jsnum \<Rightarrow> jsnum" where
  "Math_max a b = (if a = NaN \<or> b = NaN then NaN else if a < b then b else a)"

definition Math_min :: "jsnum \<Rightarrow> jsnum \<Rightarrow> jsnum" where
  "Math_min a b = (if a = NaN \<or> b = NaN then NaN else if b < a then b else a)"

text \<open>\<open>Math.hypot\<close>: an infinite argument wins over \<open>NaN\<close>.\<close>

definition Math_hypot :: "jsnum \<Rightarrow> jsnum \<Rightarrow> jsnum" where
  "Math_hypot a b =
     (if a = PInf \<or> a = NInf \<or> b = PInf \<or> b = NInf then PInf
      else Math_sqrt (a * a + b * b))"

section \<open>The parts of three.js the picker uses\<close>

datatype vec2 = Vector2 (x2: jsnum) (y2: jsnum)

datatype vec3 = Vector3 (x3: jsnum) (y3: jsnum) (z3: jsnum)

text \<open>\<open>Matrix4.elements\<close>, in its column-major order: \<open>e12\<close>, \<open>e13\<close>, \<open>e14\<close> are the position.\<close>

datatype mat4 = Matrix4
  (e0: jsnum) (e1: jsnum) (e2: jsnum) (e3: jsnum)
  (e4: jsnum) (e5: jsnum) (e6: jsnum) (e7: jsnum)
  (e8: jsnum) (e9: jsnum) (e10: jsnum) (e11: jsnum)
  (e12: jsnum) (e13: jsnum) (e14: jsnum) (e15: jsnum)

datatype plane = Plane (plane_normal: vec3) (plane_constant: jsnum)

datatype ray = Ray (origin: vec3) (direction: vec3)

definition dot :: "vec3 \<Rightarrow> vec3 \<Rightarrow> jsnum" where
  "dot a b = x3 a * x3 b + y3 a * y3 b + z3 a * z3 b"

definition crossVectors :: "vec3 \<Rightarrow> vec3 \<Rightarrow> vec3" where
  "crossVectors a b =
     Vector3 (y3 a * z3 b - z3 a * y3 b)
             (z3 a * x3 b - x3 a * z3 b)
             (x3 a * y3 b - y3 a * x3 b)"

definition multiplyScalar :: "vec3 \<Rightarrow> jsnum \<Rightarrow> vec3" where
  "multiplyScalar a s = Vector3 (x3 a * s) (y3 a * s) (z3 a * s)"

definition divideScalar :: "vec3 \<Rightarrow> jsnum \<Rightarrow> vec3" where
  "divideScalar a s = multiplyScalar a (Fin 1 / s)"

definition length3 :: "vec3 \<Rightarrow> jsnum" where
  "length3 a = Math_sqrt (x3 a * x3 a + y3 a * y3 a + z3 a * z3 a)"

text \<open>
  \<open>Vector3.normalize\<close>, which divides by \<open>length() || 1\<close>: the zero vector stays the
  zero vector.
\<close>

definition normalize3 :: "vec3 \<Rightarrow> vec3" where
  "normalize3 a = divideScalar a (js_or (length3 a) (Fin 1))"

definition distanceTo :: "vec3 \<Rightarrow> vec3 \<Rightarrow> jsnum" where
  "distanceTo a b =
     (let dx = x3 a - x3 b; dy = y3 a - y3 b; dz = z3 a - z3 b
      in Math_sqrt (dx * dx + dy * dy + dz * dz))"

text \<open>\<open>Vector3.applyMatrix4\<close>, with its perspective divide.\<close>

definition applyMatrix4 :: "vec3 \<Rightarrow> mat4 \<Rightarrow> vec3" where
  "applyMatrix4 a m =
     (let x = x3 a; y = y3 a; z = z3 a;
          w = Fin 1 / (e3 m * x + e7 m * y + e11 m * z + e15 m)
      in Vector3 ((e0 m * x + e4 m * y + e8 m * z + e12 m) * w)
                 ((e1 m * x + e5 m * y + e9 m * z + e13 m) * w)
                 ((e2 m * x + e6 m * y + e10 m * z + e14 m) * w))"

definition makeBasis :: "vec3 \<Rightarrow> vec3 \<Rightarrow> vec3 \<Rightarrow> mat4" where
  "makeBasis xAxis yAxis zAxis =
     Matrix4 (x3 xAxis) (y3 xAxis) (z3 xAxis) (Fin 0)
             (x3 yAxis) (y3 yAxis) (z3 yAxis) (Fin 0)
             (x3 zAxis) (y3 zAxis) (z3 zAxis) (Fin 0)
             (Fin 0) (Fin 0) (Fin 0) (Fin 1)"

fun setPosition :: "mat4 \<Rightarrow> vec3 \<Rightarrow> mat4" where
  "setPosition (Matrix4 a0 a1 a2 a3 a4 a5 a6 a7 a8 a9 a10 a11 a12 a13 a14 a15) v =
     Matrix4 a0 a1 a2 a3 a4 a5 a6 a7 a8 a9 a10 a11 (x3 v) (y3 v) (z3 v) a15"

definition zero_mat4 :: mat4 where
  "zero_mat4 = Matrix4 (Fin 0) (Fin 0) (Fin 0) (Fin 0) (Fin 0) (Fin 0) (Fin 0) (Fin 0)
                       (Fin 0) (Fin 0) (Fin 0) (Fin 0) (Fin 0) (Fin 0) (Fin 0) (Fin 0)"

text \<open>
  \<open>Matrix4.invert\<close>: the cofactor formula, and the zero matrix when the determinant
  is zero.
\<close>

fun invert :: "mat4 \<Rightarrow> mat4" where
  "invert (Matrix4 n11 n21 n31 n41 n12 n22 n32 n42 n13 n23 n33 n43 n14 n24 n34 n44) =
     (let t11 = n23 * n34 * n42 - n24 * n33 * n42 + n24 * n32 * n43
                - n22 * n34 * n43 - n23 * n32 * n44 + n22 * n33 * n44;
          t12 = n14 * n33 * n42 - n13 * n34 * n42 - n14 * n32 * n43
                + n12 * n34 * n43 + n13 * n32 * n44 - n12 * n33 * n44;
          t13 = n13 * n24 * n42 - n14 * n23 * n42 + n14 * n22 * n43
                - n12 * n24 * n43 - n13 * n22 * n44 + n12 * n23 * n44;
          t14 = n14 * n23 * n32 - n13 * n24 * n32 - n14 * n22 * n33
                + n12 * n24 * n33 + n13 * n22 * n34 - n12 * n23 * n34;
          det = n11 * t11 + n21 * t12 + n31 * t13 + n41 * t14
      in if strict_eq det (Fin 0) then zero_mat4
         else
           let detInv = Fin 1 / det
           in Matrix4
                (t11 * detInv)
                ((n24 * n33 * n41 - n23 * n34 * n41 - n24 * n31 * n43
                  + n21 * n34 * n43 + n23 * n31 * n44 - n21 * n33 * n44) * detInv)
                ((n22 * n34 * n41 - n24 * n32 * n41 + n24 * n31 * n42
                  - n21 * n34 * n42 - n22 * n31 * n44 + n21 * n32 * n44) * detInv)
                ((n23 * n32 * n41 - n22 * n33 * n41 - n23 * n31 * n42
                  + n21 * n33 * n42 + n22 * n31 * n43 - n21 * n32 * n43) * detInv)
                (t12 * detInv)
                ((n13 * n34 * n41 - n14 * n33 * n41 + n14 * n31 * n43
                  - n11 * n34 * n43 - n13 * n31 * n44 + n11 * n33 * n44) * detInv)
                ((n14 * n32 * n41 - n12 * n34 * n41 - n14 * n31 * n42
                  + n11 * n34 * n42 + n12 * n31 * n44 - n11 * n32 * n44) * detInv)
                ((n12 * n33 * n41 - n13 * n32 * n41 + n13 * n31 * n42
                  - n11 * n33 * n42 - n12 * n31 * n43 + n11 * n32 * n43) * detInv)
                (t13 * detInv)
                ((n14 * n23 * n41 - n13 * n24 * n41 - n14 * n21 * n43
                  + n11 * n24 * n43 + n13 * n21 * n44 - n11 * n23 * n44) * detInv)
                ((n12 * n24 * n41 - n14 * n22 * n41 + n14 * n21 * n42
                  - n11 * n24 * n42 - n12 * n21 * n44 + n11 * n22 * n44) * detInv)
                ((n13 * n22 * n41 - n12 * n23 * n41 - n13 * n21 * n42
                  + n11 * n23 * n42 + n12 * n21 * n43 - n11 * n22 * n43) * detInv)
                (t14 * detInv)
                ((n13 * n24 * n31 - n14 * n23 * n31 + n14 * n21 * n33
                  - n11 * n24 * n33 - n13 * n21 * n34 + n11 * n23 * n34) * detInv)
                ((n14 * n22 * n31 - n12 * n24 * n31 - n14 * n21 * n32
                  + n11 * n24 * n32 + n12 * n21 * n34 - n11 * n22 * n34) * detInv)
                ((n12 * n23 * n31 - n13 * n22 * n31 + n13 * n21 * n32
                  - n11 * n23 * n32 - n12 * n21 * n33 + n11 * n22 * n33) * detInv))"

definition setFromNormalAndCoplanarPoint :: "vec3 \<Rightarrow> vec3 \<Rightarrow> plane" where
  "setFromNormalAndCoplanarPoint n p = Plane n (- dot p n)"

definition distanceToPoint :: "plane \<Rightarrow> vec3 \<Rightarrow> jsnum" where
  "distanceToPoint pl p = dot (plane_normal pl) p + plane_constant pl"

text \<open>
  \<open>Ray.distanceToPlane\<close>: \<open>None\<close> is its \<open>null\<close>, for a ray parallel to the plane and
  off it and for a plane behind the ray; for a ray that lies in the plane it is 0.
\<close>

definition distanceToPlane :: "ray \<Rightarrow> plane \<Rightarrow> jsnum option" where
  "distanceToPlane r pl =
     (let denominator = dot (plane_normal pl) (direction r)
      in if strict_eq denominator (Fin 0) then
           (if strict_eq (distanceToPoint pl (origin r)) (Fin 0) then Some (Fin 0) else None)
         else
           let t = - (dot (origin r) (plane_normal pl) + plane_constant pl) / denominator
           in if Fin 0 \<le> t then Some t else None)"

definition ray_at :: "ray \<Rightarrow> jsnum \<Rightarrow> vec3" where
  "ray_at r t =
     Vector3 (x3 (origin r) + x3 (direction r) * t)
             (y3 (origin r) + y3 (direction r) * t)
             (z3 (origin r) + z3 (direction r) * t)"

definition intersectPlane :: "ray \<Rightarrow> plane \<Rightarrow> vec3 option" where
  "intersectPlane r pl =
     (case distanceToPlane r pl of None \<Rightarrow> None | Some t \<Rightarrow> Some (ray_at r t))"

section \<open>ToothPicker.ts\<close>

text \<open>
  The loops \<open>for (i = 0, j = n - 1; i < n; j = i++)\<close> visit the vertices in order,
  each with the vertex visited before it, the first with the last; on an empty array the
  body never runs.
\<close>

record newell_state =
  acc_n :: vec3
  acc_cx :: jsnum
  acc_cy :: jsnum
  acc_cz :: jsnum

fun newell_loop :: "vec3 \<Rightarrow> vec3 list \<Rightarrow> newell_state \<Rightarrow> newell_state" where
  "newell_loop pj [] s = s"
| "newell_loop pj (p # ps) s =
     newell_loop p ps
       \<lparr> acc_n = Vector3 (x3 (acc_n s) + (y3 pj - y3 p) * (z3 pj + z3 p))
                         (y3 (acc_n s) + (z3 pj - z3 p) * (x3 pj + x3 p))
                         (z3 (acc_n s) + (x3 pj - x3 p) * (y3 pj + y3 p)),
         acc_cx = acc_cx s + x3 p, acc_cy = acc_cy s + y3 p, acc_cz = acc_cz s + z3 p \<rparr>"

definition newell_init :: newell_state where
  "newell_init =
     \<lparr> acc_n = Vector3 (Fin 0) (Fin 0) (Fin 0), acc_cx = Fin 0, acc_cy = Fin 0, acc_cz = Fin 0 \<rparr>"

definition newell_run :: "vec3 list \<Rightarrow> newell_state" where
  "newell_run points =
     (case points of [] \<Rightarrow> newell_init | _ \<Rightarrow> newell_loop (last points) points newell_init)"

definition newellPlane :: "vec3 list \<Rightarrow> vec3 \<times> vec3" where
  "newellPlane points =
     (let s = newell_run points;
          len = Fin (real (length points));
          org = Vector3 (acc_cx s / len) (acc_cy s / len) (acc_cz s / len)
      in (normalize3 (acc_n s), org))"

record frame =
  frame_u :: vec3
  frame_v :: vec3
  frame_n :: vec3
  frame_origin :: vec3
  frame_toWorld :: mat4
  frame_toLocal :: mat4

definition buildBasis :: "vec3 \<Rightarrow> vec3 \<Rightarrow> frame" where
  "buildBasis nrm org =
     (let n = normalize3 nrm;
          t = (if Math_abs (y3 n) < Fin (9 / 10) then Vector3 (Fin 0) (Fin 1) (Fin 0)
               else Vector3 (Fin 1) (Fin 0) (Fin 0));
          u = normalize3 (crossVectors n t);
          v = normalize3 (crossVectors n u);
          toWorld = setPosition (makeBasis u v n) org;
          toLocal = invert toWorld
      in \<lparr> frame_u = u, frame_v = v, frame_n = n, frame_origin = org,
           frame_toWorld = toWorld, frame_toLocal = toLocal \<rparr>)"

text \<open>One edge of the ray-crossing test: \<open>a = poly[i]\<close>, \<open>b = poly[j]\<close>.\<close>

definition crosses :: "vec2 \<Rightarrow> vec2 \<Rightarrow> vec2 \<Rightarrow> bool" where
  "crosses p a b =
     ((y2 p < y2 a) \<noteq> (y2 p < y2 b) \<and>
      x2 p < ((x2 b - x2 a) * (y2 p - y2 a)) / (y2 b - y2 a) + x2 a)"

fun pip_loop :: "vec2 \<Rightarrow> vec2 \<Rightarrow> vec2 list \<Rightarrow> bool \<Rightarrow> bool" where
  "pip_loop p b [] inside = inside"
| "pip_loop p b (a # rest) inside =
     pip_loop p a rest (if crosses p a b then \<not> inside else inside)"

definition pointInPolygon2D :: "vec2 \<Rightarrow> vec2 list \<Rightarrow> bool" where
  "pointInPolygon2D p poly =
     (case poly of [] \<Rightarrow> False | _ \<Rightarrow> pip_loop p (last poly) poly False)"

definition pointToSegmentDistance2D :: "vec2 \<Rightarrow> vec2 \<Rightarrow> vec2 \<Rightarrow> jsnum" where
  "pointToSegmentDistance2D p a b =
     (let abx = x2 b - x2 a; aby = y2 b - y2 a;
          apx = x2 p - x2 a; apy = y2 p - y2 a;
          abLen2 = js_or (abx * abx + aby * aby) (Fin (1 / 10 ^ 8));
          t0 = (apx * abx + apy * aby) / abLen2;
          t = Math_max (Fin 0) (Math_min (Fin 1) t0);
          cx = x2 a + t * abx; cy = y2 a + t * aby;
          dx = x2 p - cx; dy = y2 p - cy
      in Math_hypot dx dy)"

text \<open>Here the segment runs from \<open>poly[j]\<close> to \<open>poly[i]\<close>.\<close>

fun dist_loop :: "vec2 \<Rightarrow> vec2 \<Rightarrow> vec2 list \<Rightarrow> jsnum \<Rightarrow> jsnum" where
  "dist_loop p pj [] m = m"
| "dist_loop p pj (pc # rest) m =
     (let d = pointToSegmentDistance2D p pj pc
      in dist_loop p pc rest (if d < m then d else m))"

definition distanceToPolygon2D :: "vec2 \<Rightarrow> vec2 list \<Rightarrow> jsnum" where
  "distanceToPolygon2D p poly =
     (case poly of [] \<Rightarrow> PInf | _ \<Rightarrow> dist_loop p (last poly) poly PInf)"

text \<open>
  The fields of a \<open>ToothPicker\<close> that the program reads or writes; \<open>userData\<close> is its
  two entries.
\<close>

record ToothPicker =
  toothNum :: jsnum
  pk_plane :: plane
  poly2 :: "vec2 list"
  toWorld :: mat4
  toLocal :: mat4
  edgeBuffer :: jsnum
  userData_toothNum :: jsnum
  userData_toothId :: "string option"

definition new_ToothPicker :: "jsnum \<Rightarrow> vec3 list \<Rightarrow> jsnum \<Rightarrow> ToothPicker" where
  "new_ToothPicker num polyWorld3 buffer =
     (let (nrm, org) = newellPlane polyWorld3;
          fr = buildBasis nrm org
      in \<lparr> toothNum = num,
           pk_plane = setFromNormalAndCoplanarPoint nrm org,
           poly2 = map (\<lambda>p. let lp = applyMatrix4 p (frame_toLocal fr)
                             in Vector2 (x3 lp) (y3 lp)) polyWorld3,
           toWorld = frame_toWorld fr,
           toLocal = frame_toLocal fr,
           edgeBuffer = buffer,
           userData_toothNum = num,
           userData_toothId = None \<rparr>)"

record Raycaster =
  rc_ray :: ray
  near :: jsnum
  far :: jsnum

record Intersection =
  hit_object :: ToothPicker
  hit_distance :: jsnum
  hit_point :: vec3
  hit_faceIndex :: nat
  hit_uv :: vec2

text \<open>\<open>raycast\<close> returns the array \<open>intersects\<close> as it leaves it.\<close>

definition raycast :: "ToothPicker \<Rightarrow> Raycaster \<Rightarrow> Intersection list \<Rightarrow> Intersection list" where
  "raycast this raycaster intersects =
     (case intersectPlane (rc_ray raycaster) (pk_plane this) of
        None \<Rightarrow> intersects
      | Some hit \<Rightarrow>
          let dist = distanceTo (origin (rc_ray raycaster)) hit
          in if dist < near raycaster \<or> far raycaster < dist then intersects
             else
               let lp = applyMatrix4 hit (toLocal this);
                   p2 = Vector2 (x3 lp) (y3 lp);
                   inside = pointInPolygon2D p2 (poly2 this);
                   edgeDist = distanceToPolygon2D p2 (poly2 this)
               in if \<not> (inside \<or> edgeDist \<le> edgeBuffer this) then intersects
                  else intersects @
                    [\<lparr> hit_object = this, hit_distance = dist, hit_point = hit,
                       hit_faceIndex = 0, hit_uv = Vector2 (Fin 0) (Fin 0) \<rparr>])"

section \<open>The annotation document\<close>

type_synonym point3 = "real \<times> real \<times> real"

text \<open>
  \<open>ToothCenter\<close> and \<open>MeshJSON\<close> of types.ts, as parsed from JSON, where every
  number is finite; \<open>num\<close> is a JavaScript number because the page writes it. The code
  tests \<open>spline\<close> and \<open>centers\<close> for being there, so both are optional; \<open>centers\<close>
  lists the entries in the order of \<open>Object.entries\<close>.
\<close>

record ToothCenter =
  prep :: real
  num :: jsnum
  center :: point3
  spline :: "point3 list option"

record MeshJSON =
  is_lower :: bool
  centers :: "(string \<times> ToothCenter) list option"

definition toVector3 :: "point3 \<Rightarrow> vec3" where
  "toVector3 p = (case p of (x, y, z) \<Rightarrow> Vector3 (Fin x) (Fin y) (Fin z))"

text \<open>The body of the loop of \<open>buildToothPickersById\<close>; \<open>None\<close> is its \<open>continue\<close>.\<close>

definition picker_for ::
  "(point3 \<Rightarrow> point3) option \<Rightarrow> jsnum \<Rightarrow> string \<Rightarrow> ToothCenter \<Rightarrow> ToothPicker option" where
  "picker_for transformPoint buffer ident t =
     (if prep t \<noteq> 1 then None
      else case spline t of
        None \<Rightarrow> None
      | Some sp \<Rightarrow>
          if length sp < 3 then None
          else
            let pts3 = map (\<lambda>pt. toVector3 (case transformPoint of None \<Rightarrow> pt | Some f \<Rightarrow> f pt)) sp;
                picker = new_ToothPicker (num t) pts3 buffer
            in Some (picker \<lparr> userData_toothId := Some ident, userData_toothNum := num t \<rparr>))"

fun pickers_loop ::
  "(point3 \<Rightarrow> point3) option \<Rightarrow> jsnum \<Rightarrow> (string \<times> ToothCenter) list \<Rightarrow>
   ToothPicker list \<Rightarrow> ToothPicker list" where
  "pickers_loop transformPoint buffer [] pickers = pickers"
| "pickers_loop transformPoint buffer ((ident, t) # entries) pickers =
     pickers_loop transformPoint buffer entries
       (case picker_for transformPoint buffer ident t of
          None \<Rightarrow> pickers
        | Some picker \<Rightarrow> pickers @ [picker])"

definition buildToothPickersById ::
  "MeshJSON \<Rightarrow> (point3 \<Rightarrow> point3) option \<Rightarrow> jsnum \<Rightarrow> ToothPicker list" where
  "buildToothPickersById json transformPoint buffer =
     pickers_loop transformPoint buffer
       (case centers json of None \<Rightarrow> [] | Some cs \<Rightarrow> cs) []"

section \<open>The viewer page: editing a display number\<close>

text \<open>
  The page mutates tooth records, so they live in a store and a document holds their
  addresses. An object spread copies these addresses: the copy is a new object whose
  entries are the same records.
\<close>

type_synonym addr = nat

type_synonym store = "addr \<Rightarrow> ToothCenter"

record MeshRef =
  ref_is_lower :: bool
  ref_centers :: "(string \<times> addr) list option"

text \<open>The document that a reader of \<open>m\<close> sees in the store \<open>h\<close>.\<close>

definition read_mesh :: "store \<Rightarrow> MeshRef \<Rightarrow> MeshJSON" where
  "read_mesh h m =
     \<lparr> is_lower = ref_is_lower m,
       centers = map_option (map (\<lambda>(ident, a). (ident, h a))) (ref_centers m) \<rparr>"

text \<open>
  The updater that \<open>changeNumA\<close> and \<open>changeNumB\<close> pass to their state setter: from
  the store and the previous state to the store and the next state.
\<close>

definition changeNum_updater ::
  "string \<Rightarrow> jsnum \<Rightarrow> store \<times> MeshRef option \<Rightarrow> store \<times> MeshRef option" where
  "changeNum_updater ident newNum hp =
     (case hp of (h, prev) \<Rightarrow>
        (case prev of
           None \<Rightarrow> (h, prev)
         | Some pm \<Rightarrow>
             (case ref_centers pm of
                None \<Rightarrow> (h, prev)
              | Some cs \<Rightarrow>
                  let next = \<lparr> ref_is_lower = ref_is_lower pm, ref_centers = Some cs \<rparr>
                  in (case map_of cs ident of
                        None \<Rightarrow> (h, Some next)
                      | Some a \<Rightarrow> (h (a := (h a) \<lparr> num := newNum \<rparr>), Some next)))))"

record ViewerPage =
  heap :: store
  mesh1Local :: "MeshRef option"
  mesh2Local :: "MeshRef option"

definition changeNumA :: "string \<Rightarrow> jsnum \<Rightarrow> ViewerPage \<Rightarrow> ViewerPage" where
  "changeNumA ident newNum pg =
     (case changeNum_updater ident newNum (heap pg, mesh1Local pg) of
        (h, next) \<Rightarrow> pg \<lparr> heap := h, mesh1Local := next \<rparr>)"

definition changeNumB :: "string \<Rightarrow> jsnum \<Rightarrow> ViewerPage \<Rightarrow> ViewerPage" where
  "changeNumB ident newNum pg =
     (case changeNum_updater ident newNum (heap pg, mesh2Local pg) of
        (h, next) \<Rightarrow> pg \<lparr> heap := h, mesh2Local := next \<rparr>)"

text \<open>
  The page starts with \<open>useState(mesh1JSON)\<close>: the editable state is the uploaded
  document itself.
\<close>

definition initial_page :: "store \<Rightarrow> MeshRef option \<Rightarrow> MeshRef option \<Rightarrow> ViewerPage" where
  "initial_page h mesh1JSON mesh2JSON =
     \<lparr> heap = h, mesh1Local = mesh1JSON, mesh2Local = mesh2JSON \<rparr>"

subsection \<open>Strings to numbers\<close>

text \<open>
  A string is its code units below 256. \<open>trim\<close> removes white space and line
  terminators from both ends.
\<close>

definition is_space :: "char \<Rightarrow> bool" where
  "is_space c = (of_char c \<in> {9, 10, 11, 12, 13, 32, 160 :: nat})"

definition trim :: "string \<Rightarrow> string" where
  "trim s = rev (dropWhile is_space (rev (dropWhile is_space s)))"

definition digit_of :: "char \<Rightarrow> nat option" where
  "digit_of c =
     (let k = (of_char c :: nat)
      in if 48 \<le> k \<and> k \<le> 57 then Some (k - 48)
         else if 97 \<le> k \<and> k \<le> 102 then Some (k - 87)
         else if 65 \<le> k \<and> k \<le> 70 then Some (k - 55)
         else None)"

text \<open>The digits of a numeral in base \<open>b\<close>: at least one, each below \<open>b\<close>.\<close>

fun digits_loop :: "nat \<Rightarrow> string \<Rightarrow> nat \<Rightarrow> nat option" where
  "digits_loop b [] v = Some v"
| "digits_loop b (c # cs) v =
     (case digit_of c of
        None \<Rightarrow> None
      | Some d \<Rightarrow> if d < b then digits_loop b cs (b * v + d) else None)"

definition digits_value :: "nat \<Rightarrow> string \<Rightarrow> nat option" where
  "digits_value b s = (if s = [] then None else digits_loop b s 0)"

definition nonDecimalLiteral :: "string \<Rightarrow> nat option" where
  "nonDecimalLiteral s =
     (case s of
        z # k # ds \<Rightarrow>
          if z \<noteq> CHR ''0'' then None
          else if k = CHR ''x'' \<or> k = CHR ''X'' then digits_value 16 ds
          else if k = CHR ''o'' \<or> k = CHR ''O'' then digits_value 8 ds
          else if k = CHR ''b'' \<or> k = CHR ''B'' then digits_value 2 ds
          else None
      | _ \<Rightarrow> None)"

text \<open>\<open>digits\<close>, \<open>digits.\<close>, \<open>digits.digits\<close> or \<open>.digits\<close>.\<close>

definition mantissa :: "string \<Rightarrow> real option" where
  "mantissa s =
     (let ip = takeWhile (\<lambda>c. c \<noteq> CHR ''.'') s;
          rest = dropWhile (\<lambda>c. c \<noteq> CHR ''.'') s
      in case rest of
           [] \<Rightarrow> map_option real (digits_value 10 ip)
         | _ # fp \<Rightarrow>
             if ip = [] \<and> fp = [] then None
             else
               (case (if ip = [] then Some 0 else digits_value 10 ip,
                      if fp = [] then Some 0 else digits_value 10 fp) of
                  (Some i, Some f) \<Rightarrow> Some (real i + real f / 10 ^ length fp)
                | _ \<Rightarrow> None))"

definition exponentPart :: "string \<Rightarrow> int option" where
  "exponentPart s =
     (case s of
        [] \<Rightarrow> None
      | c # cs \<Rightarrow>
          if c = CHR ''+'' then map_option int (digits_value 10 cs)
          else if c = CHR ''-'' then map_option (\<lambda>k. - int k) (digits_value 10 cs)
          else map_option int (digits_value 10 s))"

definition unsignedDecimalLiteral :: "string \<Rightarrow> jsnum" where
  "unsignedDecimalLiteral s =
     (if s = ''Infinity'' then PInf
      else
        let isE = (\<lambda>c. c = CHR ''e'' \<or> c = CHR ''E'');
            m = takeWhile (\<lambda>c. \<not> isE c) s;
            rest = dropWhile (\<lambda>c. \<not> isE c) s
        in case mantissa m of
             None \<Rightarrow> NaN
           | Some q \<Rightarrow>
               (case rest of
                  [] \<Rightarrow> Fin q
                | _ # ex \<Rightarrow>
                    (case exponentPart ex of
                       None \<Rightarrow> NaN
                     | Some k \<Rightarrow>
                         Fin (if 0 \<le> k then q * 10 ^ nat k else q / 10 ^ nat (- k)))))"

text \<open>\<open>Number(s)\<close> for a string \<open>s\<close>.\<close>

definition Number :: "string \<Rightarrow> jsnum" where
  "Number s =
     (let t = trim s
      in case t of
           [] \<Rightarrow> Fin 0
         | c # cs \<Rightarrow>
             (case nonDecimalLiteral t of
                Some v \<Rightarrow> Fin (real v)
              | None \<Rightarrow>
                  if c = CHR ''+'' then unsignedDecimalLiteral cs
                  else if c = CHR ''-'' then - unsignedDecimalLiteral cs
                  else unsignedDecimalLiteral t))"

subsection \<open>The number field of a tooth\<close>

text \<open>The two helper texts: \<open>Required (1-16)\<close> and \<open>Must be 1-16\<close>.\<close>

datatype helper_text = Required_1_16 | Must_be_1_16

text \<open>
  \<open>handleBlur\<close> of \<open>ToothAccordion\<close>, which holds \<open>drafts\<close> and \<open>errors\<close> and is
  given \<open>onChangeNumForId\<close>; \<open>page\<close> is the state that the callback changes.
\<close>

definition handleBlur ::
  "(string \<Rightarrow> jsnum \<Rightarrow> 'p \<Rightarrow> 'p) \<Rightarrow> (string \<rightharpoonup> string) \<Rightarrow> string \<Rightarrow> bool \<Rightarrow> jsnum \<Rightarrow>
   (string \<rightharpoonup> helper_text option) \<times> 'p \<Rightarrow> (string \<rightharpoonup> helper_text option) \<times> 'p" where
  "handleBlur onChangeNumForId drafts ident selected currentNum ep =
     (case ep of (errors, page) \<Rightarrow>
        if \<not> selected then (errors, page)
        else
          let raw = (case drafts ident of None \<Rightarrow> [] | Some d \<Rightarrow> d)
          in if trim raw = [] then (errors (ident \<mapsto> Some Required_1_16), page)
             else
               let n = Number raw
               in if \<not> isFinite n \<or> n < Fin 1 \<or> Fin 16 < n
                  then (errors (ident \<mapsto> Some Must_be_1_16), page)
                  else if \<not> strict_eq n currentNum then (errors, onChangeNumForId ident n page)
                  else (errors, page))"

section \<open>The hollow sleeve\<close>

text \<open>\<open>Math.atan2 y x\<close>.\<close>

fun Math_atan2 :: "jsnum \<Rightarrow> jsnum \<Rightarrow> jsnum" where
  "Math_atan2 (Fin y) (Fin x) =
     Fin (if 0 < x then arctan (y / x)
          else if x < 0 then (if 0 \<le> y then arctan (y / x) + pi else arctan (y / x) - pi)
          else if 0 < y then pi / 2 else if y < 0 then - (pi / 2) else 0)"
| "Math_atan2 NaN _ = NaN"
| "Math_atan2 _ NaN = NaN"
| "Math_atan2 (Fin y) PInf = Fin 0"
| "Math_atan2 (Fin y) NInf = Fin (if 0 \<le> y then pi else - pi)"
| "Math_atan2 PInf (Fin x) = Fin (pi / 2)"
| "Math_atan2 NInf (Fin x) = Fin (- (pi / 2))"
| "Math_atan2 PInf PInf = Fin (pi / 4)"
| "Math_atan2 PInf NInf = Fin (3 * pi / 4)"
| "Math_atan2 NInf PInf = Fin (- (pi / 4))"
| "Math_atan2 NInf NInf = Fin (- (3 * pi / 4))"

text \<open>
  \<open>Array.prototype.sort\<close> with a comparator: a stable sort, here by insertion. Where
  the comparator is not consistent (it returns \<open>NaN\<close>) the language leaves the order
  to the implementation, and this is one such order.
\<close>

fun insert_sorted :: "('a \<Rightarrow> 'a \<Rightarrow> jsnum) \<Rightarrow> 'a \<Rightarrow> 'a list \<Rightarrow> 'a list" where
  "insert_sorted cmp a [] = [a]"
| "insert_sorted cmp a (b # bs) =
     (if cmp a b < Fin 0 then a # b # bs else b # insert_sorted cmp a bs)"

definition array_sort :: "('a \<Rightarrow> 'a \<Rightarrow> jsnum) \<Rightarrow> 'a list \<Rightarrow> 'a list" where
  "array_sort cmp xs = foldl (\<lambda>sorted a. insert_sorted cmp a sorted) [] xs"

definition length2 :: "vec2 \<Rightarrow> jsnum" where
  "length2 a = Math_sqrt (x2 a * x2 a + y2 a * y2 a)"

definition identity_mat4 :: mat4 where
  "identity_mat4 = Matrix4 (Fin 1) (Fin 0) (Fin 0) (Fin 0) (Fin 0) (Fin 1) (Fin 0) (Fin 0)
                           (Fin 0) (Fin 0) (Fin 1) (Fin 0) (Fin 0) (Fin 0) (Fin 0) (Fin 1)"

text \<open>
  The memoised computation of \<open>HollowSleeveOnSpline\<close>, step by step: the frame of the
  spline, its points in the plane, their centroid, the outer loop and the inner loop.
\<close>

definition sleeve_toWorld :: "point3 list \<Rightarrow> mat4" where
  "sleeve_toWorld spl =
     (let pts3 = map toVector3 spl;
          s = newell_run pts3;
          n = normalize3 (acc_n s);
          len = Fin (real (length pts3));
          centroid = Vector3 (acc_cx s / len) (acc_cy s / len) (acc_cz s / len);
          t = (if Math_abs (y3 n) < Fin (9 / 10) then Vector3 (Fin 0) (Fin 1) (Fin 0)
               else Vector3 (Fin 1) (Fin 0) (Fin 0));
          u = normalize3 (crossVectors n t);
          v = normalize3 (crossVectors n u)
      in setPosition (makeBasis u v n) centroid)"

definition sleeve_pts2 :: "point3 list \<Rightarrow> vec2 list" where
  "sleeve_pts2 spl =
     (let toLocal = invert (sleeve_toWorld spl)
      in map (\<lambda>p. Vector2 (x3 p) (y3 p))
           (map (\<lambda>p. applyMatrix4 p toLocal) (map toVector3 spl)))"

definition sleeve_c2 :: "point3 list \<Rightarrow> vec2" where
  "sleeve_c2 spl =
     (let pts2 = sleeve_pts2 spl
      in Vector2 (foldl (\<lambda>s p. s + x2 p) (Fin 0) pts2 / Fin (real (length pts2)))
                 (foldl (\<lambda>s p. s + y2 p) (Fin 0) pts2 / Fin (real (length pts2))))"

definition sleeve_outer :: "point3 list \<Rightarrow> vec2 list" where
  "sleeve_outer spl =
     (let c2 = sleeve_c2 spl
      in map fst
           (array_sort (\<lambda>A B. snd A - snd B)
              (map (\<lambda>p. (p, Math_atan2 (y2 p - y2 c2) (x2 p - x2 c2))) (sleeve_pts2 spl))))"

definition inner_point :: "jsnum \<Rightarrow> vec2 \<Rightarrow> vec2 \<Rightarrow> vec2" where
  "inner_point wall c2 p =
     (let dir = Vector2 (x2 p - x2 c2) (y2 p - y2 c2);
          len = js_or (length2 dir) (Fin (1 / 10 ^ 8));
          k = Math_max (Fin 0) (Fin 1 - wall / len)
      in Vector2 (x2 c2 + x2 dir * k) (y2 c2 + y2 dir * k))"

definition sleeve_inner :: "point3 list \<Rightarrow> jsnum \<Rightarrow> vec2 list" where
  "sleeve_inner spl wall = map (inner_point wall (sleeve_c2 spl)) (sleeve_outer spl)"

text \<open>
  What \<open>ExtrudeGeometry\<close> is built from: the shape's outline, its hole and the depth.
\<close>

record ExtrudeGeometry =
  shape_outline :: "vec2 list"
  shape_hole :: "vec2 list"
  depth :: jsnum

definition sleeve_memo :: "point3 list \<Rightarrow> jsnum \<Rightarrow> jsnum \<Rightarrow> ExtrudeGeometry option \<times> mat4" where
  "sleeve_memo spl wall height =
     (if length (map toVector3 spl) < 3 then (None, identity_mat4)
      else
        (Some \<lparr> shape_outline = sleeve_outer spl,
                shape_hole = rev (sleeve_inner spl wall),
                depth = height \<rparr>,
         sleeve_toWorld spl))"

text \<open>The component returns \<open>null\<close> or one mesh element with this geometry and matrix.\<close>

record mesh_element =
  geometry :: ExtrudeGeometry
  matrix :: mat4

definition HollowSleeveOnSpline :: "point3 list \<Rightarrow> jsnum \<Rightarrow> jsnum \<Rightarrow> mesh_element option" where
  "HollowSleeveOnSpline spl wall height =
     (case sleeve_memo spl wall height of
        (None, m) \<Rightarrow> None
      | (Some geom, m) \<Rightarrow> Some \<lparr> geometry = geom, matrix = m \<rparr>)"

section \<open>Definitions used to state the properties\<close>

text \<open>
  The ray-crossing test with its division guarded: \<open>None\<close> when a division by zero is
  reached. It differs from \<open>crosses\<close> and \<open>pointInPolygon2D\<close> in nothing else.
\<close>

definition crosses_checked :: "vec2 \<Rightarrow> vec2 \<Rightarrow> vec2 \<Rightarrow> bool option" where
  "crosses_checked p a b =
     (if (y2 p < y2 a) \<noteq> (y2 p < y2 b)
      then (if y2 b - y2 a = Fin 0 then None
            else Some (x2 p < ((x2 b - x2 a) * (y2 p - y2 a)) / (y2 b - y2 a) + x2 a))
      else Some False)"

fun pip_loop_checked :: "vec2 \<Rightarrow> vec2 \<Rightarrow> vec2 list \<Rightarrow> bool \<Rightarrow> bool option" where
  "pip_loop_checked p b [] inside = Some inside"
| "pip_loop_checked p b (a # rest) inside =
     (case crosses_checked p a b of
        None \<Rightarrow> None
      | Some c \<Rightarrow> pip_loop_checked p a rest (if c then \<not> inside else inside))"

definition pointInPolygon2D_checked :: "vec2 \<Rightarrow> vec2 list \<Rightarrow> bool option" where
  "pointInPolygon2D_checked p poly =
     (case poly of [] \<Rightarrow> Some False | _ \<Rightarrow> pip_loop_checked p (last poly) poly False)"

text \<open>
  The spec's words for the teeth that get a region: the flag is \<open>defective\<close> and the
  boundary loop has at least three points.
\<close>

definition has_region :: "ToothCenter \<Rightarrow> bool" where
  "has_region t = (prep t = 1 \<and> (case spline t of None \<Rightarrow> False | Some sp \<Rightarrow> 3 \<le> length sp))"

definition entries_of :: "MeshJSON \<Rightarrow> (string \<times> ToothCenter) list" where
  "entries_of json = (case centers json of None \<Rightarrow> [] | Some cs \<Rightarrow> cs)"

definition sample_tooth :: "real \<Rightarrow> point3 list option \<Rightarrow> ToothCenter" where
  "sample_tooth pr sp = \<lparr> prep = pr, num = Fin 3, center = (0, 0, 0), spline = sp \<rparr>"

text \<open>
  The display number that a reader of the document \<open>m\<close> finds for a tooth in the
  store \<open>h\<close>.
\<close>

definition displayed_num :: "store \<Rightarrow> MeshRef option \<Rightarrow> string \<Rightarrow> jsnum option" where
  "displayed_num h m ident =
     (case m of
        None \<Rightarrow> None
      | Some mr \<Rightarrow>
          (case ref_centers mr of
             None \<Rightarrow> None
           | Some cs \<Rightarrow> map_option (\<lambda>a. num (h a)) (map_of cs ident)))"

definition sample_store :: store where
  "sample_store = (\<lambda>a. \<lparr> prep = 1, num = Fin (real a + 3), center = (0, 0, 0), spline = None \<rparr>)"

definition sample_mesh :: MeshRef where
  "sample_mesh = \<lparr> ref_is_lower = False, ref_centers = Some [(''a'', 0), (''b'', 1)] \<rparr>"

text \<open>
  The same vector operations on triples of reals, to state what the code computes on
  finite input.
\<close>

definition cross3 :: "point3 \<Rightarrow> point3 \<Rightarrow> point3" where
  "cross3 a b =
     (case a of (ax, ay, az) \<Rightarrow> case b of (bx, by, bz) \<Rightarrow>
        (ay * bz - az * by, az * bx - ax * bz, ax * by - ay * bx))"

definition dot3 :: "point3 \<Rightarrow> point3 \<Rightarrow> real" where
  "dot3 a b = (case a of (ax, ay, az) \<Rightarrow> case b of (bx, by, bz) \<Rightarrow> ax * bx + ay * by + az * bz)"

definition norm3 :: "point3 \<Rightarrow> real" where
  "norm3 a = sqrt (dot3 a a)"

definition unit3 :: "point3 \<Rightarrow> point3" where
  "unit3 a =
     (case a of (ax, ay, az) \<Rightarrow>
        let l = (if norm3 a = 0 then 1 else norm3 a) in (ax / l, ay / l, az / l))"

text \<open>
  The sum of \<open>f\<close> over the consecutive pairs of a list; the Newell accumulator of a loop
  sums its three terms over the pairs of the closed loop, and the centroid is the mean.
\<close>

fun path_sum :: "('a \<Rightarrow> 'a \<Rightarrow> real) \<Rightarrow> 'a list \<Rightarrow> real" where
  "path_sum f [] = 0"
| "path_sum f [a] = 0"
| "path_sum f (a # b # r) = f a b + path_sum f (b # r)"

definition newell_x :: "point3 \<Rightarrow> point3 \<Rightarrow> real" where
  "newell_x pj p = (case pj of (xj, yj, zj) \<Rightarrow> case p of (x, y, z) \<Rightarrow> (yj - y) * (zj + z))"

definition newell_y :: "point3 \<Rightarrow> point3 \<Rightarrow> real" where
  "newell_y pj p = (case pj of (xj, yj, zj) \<Rightarrow> case p of (x, y, z) \<Rightarrow> (zj - z) * (xj + x))"

definition newell_z :: "point3 \<Rightarrow> point3 \<Rightarrow> real" where
  "newell_z pj p = (case pj of (xj, yj, zj) \<Rightarrow> case p of (x, y, z) \<Rightarrow> (xj - x) * (yj + y))"

definition newell_acc :: "point3 list \<Rightarrow> point3" where
  "newell_acc ps =
     (case ps of
        [] \<Rightarrow> (0, 0, 0)
      | _ \<Rightarrow> (path_sum newell_x (last ps # ps), path_sum newell_y (last ps # ps),
              path_sum newell_z (last ps # ps)))"

definition centroid3 :: "point3 list \<Rightarrow> point3" where
  "centroid3 ps =
     (sum_list (map fst ps) / real (length ps),
      sum_list (map (\<lambda>p. fst (snd p)) ps) / real (length ps),
      sum_list (map (\<lambda>p. snd (snd p)) ps) / real (length ps))"

text \<open>\<open>Vector3.negate\<close>.\<close>

definition negate :: "vec3 \<Rightarrow> vec3" where
  "negate a = Vector3 (- x3 a) (- y3 a) (- z3 a)"

definition square_loop :: "point3 list" where
  "square_loop = [(0, 0, 0), (2, 0, 0), (2, 2, 0), (0, 2, 0)]"

definition collinear_loop :: "point3 list" where
  "collinear_loop = [(0, 0, 0), (1, 0, 0), (2, 0, 0)]"

text \<open>The point at parameter \<open>s\<close> of the line through \<open>a\<close> with direction \<open>d\<close>.\<close>

definition on_line :: "point3 \<Rightarrow> point3 \<Rightarrow> real \<Rightarrow> point3" where
  "on_line a d s =
     (case a of (ax, ay, az) \<Rightarrow> case d of (dx, dy, dz) \<Rightarrow> (ax + s * dx, ay + s * dy, az + s * dz))"

definition collinear_doc :: MeshJSON where
  "collinear_doc = \<lparr> is_lower = False, centers = Some [(''a'', sample_tooth 1 (Some collinear_loop))] \<rparr>"

definition det3 :: "point3 \<Rightarrow> point3 \<Rightarrow> point3 \<Rightarrow> real" where
  "det3 u v n = dot3 u (cross3 v n)"

definition sub3 :: "point3 \<Rightarrow> point3 \<Rightarrow> point3" where
  "sub3 a b = (case a of (ax, ay, az) \<Rightarrow> case b of (bx, by, bz) \<Rightarrow> (ax - bx, ay - by, az - bz))"

text \<open>
  The affine frame with axes \<open>u\<close>, \<open>v\<close>, \<open>n\<close> and origin \<open>o\<close> on real triples: local
  to world, and world to local by Cramer's rule.
\<close>

definition to_world :: "point3 \<Rightarrow> point3 \<Rightarrow> point3 \<Rightarrow> point3 \<Rightarrow> point3 \<Rightarrow> point3" where
  "to_world u v n org q =
     (case u of (ux, uy, uz) \<Rightarrow> case v of (vx, vy, vz) \<Rightarrow> case n of (nx, ny, nz) \<Rightarrow>
      case org of (ox, oy, oz) \<Rightarrow> case q of (x, y, z) \<Rightarrow>
        (ux * x + vx * y + nx * z + ox, uy * x + vy * y + ny * z + oy,
         uz * x + vz * y + nz * z + oz))"

definition to_local :: "point3 \<Rightarrow> point3 \<Rightarrow> point3 \<Rightarrow> point3 \<Rightarrow> point3 \<Rightarrow> point3" where
  "to_local u v n org p =
     (dot3 (cross3 v n) (sub3 p org) / det3 u v n,
      dot3 (cross3 n u) (sub3 p org) / det3 u v n,
      dot3 (cross3 u v) (sub3 p org) / det3 u v n)"

text \<open>The reference axis and the two tangents of \<open>buildBasis\<close>, on real triples.\<close>

definition basis_t :: "point3 \<Rightarrow> point3" where
  "basis_t n = (if \<bar>fst (snd n)\<bar> < 9 / 10 then (0, 1, 0) else (1, 0, 0))"

definition basis_u :: "point3 \<Rightarrow> point3" where
  "basis_u nrm = unit3 (cross3 (unit3 nrm) (basis_t (unit3 nrm)))"

definition basis_v :: "point3 \<Rightarrow> point3" where
  "basis_v nrm = unit3 (cross3 (unit3 nrm) (basis_u nrm))"

text \<open>
  The first two local coordinates of a point in the frame that the sleeve builder fits
  to a spline.
\<close>

definition local2 :: "point3 list \<Rightarrow> point3 \<Rightarrow> real \<times> real" where
  "local2 spl p =
     (let q = to_local (basis_u (newell_acc spl)) (basis_v (newell_acc spl))
                (unit3 (newell_acc spl)) (centroid3 spl) p
      in (fst q, fst (snd q)))"

text \<open>The point at parameter \<open>t\<close> of the ray from \<open>org\<close> along \<open>d\<close>.\<close>

definition point_at :: "point3 \<Rightarrow> point3 \<Rightarrow> real \<Rightarrow> point3" where
  "point_at org d t =
     (case org of (ox, oy, oz) \<Rightarrow> case d of (dx, dy, dz) \<Rightarrow> (ox + dx * t, oy + dy * t, oz + dz * t))"

text \<open>The point \<open>h\<close> lies on the ray from \<open>org\<close> along \<open>d\<close> and on the plane \<open>nrm . p + c = 0\<close>.\<close>

definition meets_plane :: "point3 \<Rightarrow> point3 \<Rightarrow> point3 \<Rightarrow> real \<Rightarrow> point3 \<Rightarrow> bool" where
  "meets_plane org d nrm c h = (\<exists>t\<ge>0. h = point_at org d t \<and> dot3 nrm h + c = 0)"

text \<open>The classifier of a picker, on a point of the world.\<close>

definition accepts :: "ToothPicker \<Rightarrow> vec3 \<Rightarrow> bool" where
  "accepts this hit =
     (let lp = applyMatrix4 hit (toLocal this); p2 = Vector2 (x3 lp) (y3 lp)
      in pointInPolygon2D p2 (poly2 this) \<or> distanceToPolygon2D p2 (poly2 this) \<le> edgeBuffer this)"

text \<open>The record that \<open>raycast\<close> pushes for the point \<open>h\<close> and a ray from \<open>org\<close>.\<close>

definition hit_record :: "ToothPicker \<Rightarrow> point3 \<Rightarrow> point3 \<Rightarrow> Intersection" where
  "hit_record this org h =
     \<lparr> hit_object = this, hit_distance = Fin (norm3 (sub3 org h)), hit_point = toVector3 h,
       hit_faceIndex = 0, hit_uv = Vector2 (Fin 0) (Fin 0) \<rparr>"

text \<open>The picker of the square loop, with edge buffer 0.1.\<close>

definition square_picker :: ToothPicker where
  "square_picker = new_ToothPicker (Fin 3) (map toVector3 square_loop) (Fin (1 / 10))"

text \<open>A ray straight down onto the plane of the square, from height 5.\<close>

definition down_ray :: "real \<Rightarrow> real \<Rightarrow> Raycaster" where
  "down_ray x y =
     \<lparr> rc_ray = Ray (toVector3 (x, y, 5)) (toVector3 (0, 0, - 1)), near = Fin (1 / 10),
       far = Fin 100 \<rparr>"

section \<open>The ray-crossing test never divides by zero\<close>

lemma opposite_sides_divisor:
  "(p < a) \<noteq> (p < b) \<Longrightarrow> b - a \<noteq> Fin 0" for a b p :: jsnum
  by (cases a; cases b; cases p) (auto simp: minus_jsnum_def)

lemma crosses_checked_eq: "crosses_checked p a b = Some (crosses p a b)"
  using opposite_sides_divisor [of "y2 p" "y2 a" "y2 b"]
  by (auto simp: crosses_checked_def crosses_def)

lemma pip_loop_checked_eq: "pip_loop_checked p b poly inside = Some (pip_loop p b poly inside)"
  by (induction poly arbitrary: b inside) (simp_all add: crosses_checked_eq)

text \<open>
  C10. In \<open>pointInPolygon2D\<close> the division by \<open>b.y - a.y\<close> is reached only for an
  edge whose endpoints lie on opposite sides of the horizontal line through the point,
  and there the divisor is not zero: the test with the guarded division never fails, for
  any polygon, and returns what the test returns.
\<close>

theorem pointInPolygon2D_division_guarded:
  "pointInPolygon2D_checked p poly = Some (pointInPolygon2D p poly)"
  by (simp add: pointInPolygon2D_checked_def pointInPolygon2D_def pip_loop_checked_eq
      split: list.split)

section \<open>The picker registry\<close>

lemma picker_for_None: "\<not> has_region t \<Longrightarrow> picker_for tp eb ident t = None"
  by (auto simp: picker_for_def has_region_def split: option.splits)

lemma picker_for_Some:
  "has_region t \<Longrightarrow> \<exists>pk. picker_for tp eb ident t = Some pk \<and> userData_toothId pk = Some ident
     \<and> userData_toothNum pk = num t \<and> toothNum pk = num t \<and> edgeBuffer pk = eb"
  by (auto simp: picker_for_def has_region_def new_ToothPicker_def Let_def
      split: option.splits prod.splits)

lemma pickers_loop_ids:
  "map userData_toothId (pickers_loop tp eb es ps) =
     map userData_toothId ps @ map (\<lambda>e. Some (fst e)) (filter (\<lambda>e. has_region (snd e)) es)"
proof (induction es arbitrary: ps)
  case Nil
  then show ?case by simp
next
  case (Cons e es)
  obtain ident t where e: "e = (ident, t)" by (cases e)
  show ?case
  proof (cases "has_region t")
    case True
    from picker_for_Some [OF True, of tp eb ident] obtain pk where
      "picker_for tp eb ident t = Some pk" "userData_toothId pk = Some ident" by blast
    with True show ?thesis by (simp add: e Cons.IH)
  next
    case False
    then show ?thesis by (simp add: e Cons.IH picker_for_None)
  qed
qed




section \<open>The hollow sleeve\<close>

text \<open>
  C8. For a spline of fewer than three points the memoised computation of
  \<open>HollowSleeveOnSpline\<close> yields no geometry (with the identity matrix) and the
  component renders nothing; both are total, so nothing is thrown.
\<close>

theorem sleeve_degenerate:
  "length spl < 3 \<Longrightarrow>
     sleeve_memo spl wall height = (None, identity_mat4) \<and>
     HollowSleeveOnSpline spl wall height = None"
  by (simp add: sleeve_memo_def HollowSleeveOnSpline_def)

theorem sleeve_degenerate_witness:
  "length [(0, 0, 0), (1, 0, 0) :: point3] < 3 \<and>
   sleeve_memo [(0, 0, 0), (1, 0, 0)] (Fin (4 / 5)) (Fin 3) = (None, identity_mat4) \<and>
   HollowSleeveOnSpline [(0, 0, 0), (1, 0, 0)] (Fin (4 / 5)) (Fin 3) = None"
  using sleeve_degenerate [of "[(0, 0, 0), (1, 0, 0)]" "Fin (4 / 5)" "Fin 3"] by simp

section \<open>Editing a display number\<close>

lemmas Number_defs = Number_def trim_def is_space_def nonDecimalLiteral_def
  unsignedDecimalLiteral_def mantissa_def exponentPart_def digits_value_def digit_of_def

lemma changeNumA_displayed:
  assumes "displayed_num (heap page) (mesh1Local page) ident \<noteq> None"
  shows "displayed_num (heap (changeNumA ident v page)) (mesh1Local (changeNumA ident v page)) ident
           = Some v"
  using assms
  by (auto simp: displayed_num_def changeNumA_def changeNum_updater_def Let_def
      split: option.splits)

lemma isFinite_range:
  "(\<not> (\<not> isFinite x \<or> x < Fin 1 \<or> Fin 16 < x)) = (\<exists>n. x = Fin n \<and> 1 \<le> n \<and> n \<le> 16)"
  by (cases x) auto

text \<open>
  C9. On blur of the field of a selected tooth: an empty draft is rejected with the text
  \<open>Required\<close>, a draft that is not a number or lies outside 1 to 16 is rejected with
  the text \<open>Must be\<close>, and in both cases the page, and so the tooth record, stays as it
  is; a draft that is a number from 1 to 16 other than the current one is committed by
  \<open>changeNumA\<close>, after which the document shows the new number for that tooth.
\<close>

theorem handleBlur_validation:
  "(trim (case drafts ident of None \<Rightarrow> [] | Some d \<Rightarrow> d) = [] \<longrightarrow>
      handleBlur changeNumA drafts ident True cur (errors, page)
        = (errors (ident \<mapsto> Some Required_1_16), page))
   \<and> (trim (case drafts ident of None \<Rightarrow> [] | Some d \<Rightarrow> d) \<noteq> []
        \<and> (\<forall>n. Number (case drafts ident of None \<Rightarrow> [] | Some d \<Rightarrow> d) = Fin n \<longrightarrow> n < 1 \<or> 16 < n) \<longrightarrow>
      handleBlur changeNumA drafts ident True cur (errors, page)
        = (errors (ident \<mapsto> Some Must_be_1_16), page))
   \<and> (\<forall>n. trim (case drafts ident of None \<Rightarrow> [] | Some d \<Rightarrow> d) \<noteq> []
        \<and> Number (case drafts ident of None \<Rightarrow> [] | Some d \<Rightarrow> d) = Fin n \<and> 1 \<le> n \<and> n \<le> 16
        \<and> cur \<noteq> Fin n
        \<and> displayed_num (heap page) (mesh1Local page) ident \<noteq> None \<longrightarrow>
      (\<exists>page'. handleBlur changeNumA drafts ident True cur (errors, page) = (errors, page')
         \<and> page' = changeNumA ident (Fin n) page
         \<and> displayed_num (heap page') (mesh1Local page') ident = Some (Fin n)))"
proof (intro conjI allI impI)
  assume "trim (case drafts ident of None \<Rightarrow> [] | Some d \<Rightarrow> d) = []"
  then show "handleBlur changeNumA drafts ident True cur (errors, page)
        = (errors (ident \<mapsto> Some Required_1_16), page)"
    by (simp add: handleBlur_def)
next
  assume a: "trim (case drafts ident of None \<Rightarrow> [] | Some d \<Rightarrow> d) \<noteq> []
        \<and> (\<forall>n. Number (case drafts ident of None \<Rightarrow> [] | Some d \<Rightarrow> d) = Fin n \<longrightarrow> n < 1 \<or> 16 < n)"
  then have "\<not> (\<exists>n. Number (case drafts ident of None \<Rightarrow> [] | Some d \<Rightarrow> d) = Fin n \<and> 1 \<le> n \<and> n \<le> 16)"
    by auto
  then have "\<not> isFinite (Number (case drafts ident of None \<Rightarrow> [] | Some d \<Rightarrow> d))
      \<or> Number (case drafts ident of None \<Rightarrow> [] | Some d \<Rightarrow> d) < Fin 1
      \<or> Fin 16 < Number (case drafts ident of None \<Rightarrow> [] | Some d \<Rightarrow> d)"
    using isFinite_range by blast
  with a show "handleBlur changeNumA drafts ident True cur (errors, page)
        = (errors (ident \<mapsto> Some Must_be_1_16), page)"
    by (simp add: handleBlur_def Let_def)
next
  fix n
  assume a: "trim (case drafts ident of None \<Rightarrow> [] | Some d \<Rightarrow> d) \<noteq> []
        \<and> Number (case drafts ident of None \<Rightarrow> [] | Some d \<Rightarrow> d) = Fin n \<and> 1 \<le> n \<and> n \<le> 16
        \<and> cur \<noteq> Fin n
        \<and> displayed_num (heap page) (mesh1Local page) ident \<noteq> None"
  then have "handleBlur changeNumA drafts ident True cur (errors, page)
      = (errors, changeNumA ident (Fin n) page)"
    by (auto simp: handleBlur_def Let_def strict_eq_def)
  with a changeNumA_displayed [of page ident "Fin n"]
  show "\<exists>page'. handleBlur changeNumA drafts ident True cur (errors, page) = (errors, page')
         \<and> page' = changeNumA ident (Fin n) page
         \<and> displayed_num (heap page') (mesh1Local page') ident = Some (Fin n)"
    by simp
qed

lemma Number_17: "Number ''17'' = Fin 17"
  by (simp add: Number_defs)

lemma Number_9: "Number ''9'' = Fin 9"
  by (simp add: Number_defs)

lemma trim_17: "trim ''17'' = ''17''"
  by (simp add: Number_defs)

lemma trim_9: "trim ''9'' = ''9''"
  by (simp add: Number_defs)

theorem handleBlur_validation_witness:
  "handleBlur changeNumA [''a'' \<mapsto> ''17''] ''a'' True (Fin 3)
       (Map.empty, initial_page sample_store (Some sample_mesh) None)
     = ([''a'' \<mapsto> Some Must_be_1_16], initial_page sample_store (Some sample_mesh) None)
   \<and> (\<exists>page'. handleBlur changeNumA [''a'' \<mapsto> ''9''] ''a'' True (Fin 3)
           (Map.empty, initial_page sample_store (Some sample_mesh) None) = (Map.empty, page')
         \<and> displayed_num (heap page') (mesh1Local page') ''a'' = Some (Fin 9))
   \<and> handleBlur changeNumA [''a'' \<mapsto> ''''] ''a'' True (Fin 3)
       (Map.empty, initial_page sample_store (Some sample_mesh) None)
     = ([''a'' \<mapsto> Some Required_1_16], initial_page sample_store (Some sample_mesh) None)"
proof (intro conjI)
  show "handleBlur changeNumA [''a'' \<mapsto> ''17''] ''a'' True (Fin 3)
       (Map.empty, initial_page sample_store (Some sample_mesh) None)
     = ([''a'' \<mapsto> Some Must_be_1_16], initial_page sample_store (Some sample_mesh) None)"
    using handleBlur_validation [of "[''a'' \<mapsto> ''17'']" "''a''" "Fin 3" Map.empty
        "initial_page sample_store (Some sample_mesh) None"]
    by (simp add: Number_17 trim_17)
next
  show "\<exists>page'. handleBlur changeNumA [''a'' \<mapsto> ''9''] ''a'' True (Fin 3)
           (Map.empty, initial_page sample_store (Some sample_mesh) None) = (Map.empty, page')
         \<and> displayed_num (heap page') (mesh1Local page') ''a'' = Some (Fin 9)"
    using handleBlur_validation [of "[''a'' \<mapsto> ''9'']" "''a''" "Fin 3" Map.empty
        "initial_page sample_store (Some sample_mesh) None"]
    by (simp add: Number_9 trim_9 displayed_num_def initial_page_def sample_mesh_def)
next
  show "handleBlur changeNumA [''a'' \<mapsto> ''''] ''a'' True (Fin 3)
       (Map.empty, initial_page sample_store (Some sample_mesh) None)
     = ([''a'' \<mapsto> Some Required_1_16], initial_page sample_store (Some sample_mesh) None)"
    using handleBlur_validation [of "[''a'' \<mapsto> '''']" "''a''" "Fin 3" Map.empty
        "initial_page sample_store (Some sample_mesh) None"]
    by (simp add: trim_def)
qed

lemma changeNum_updater_shares:
  "changeNum_updater ident v (h, Some m) = (h', m') \<Longrightarrow>
     map_option ref_centers m' = Some (ref_centers m)"
  by (auto simp: changeNum_updater_def Let_def split: option.splits)

lemma changeNum_updater_siblings:
  "changeNum_updater ident v (h, Some m) = (h', m') \<Longrightarrow> ref_centers m = Some cs \<Longrightarrow>
     map_of cs ident \<noteq> Some a \<Longrightarrow> h' a = h a"
  by (auto simp: changeNum_updater_def Let_def split: option.splits)

text \<open>
  C5. The uploaded document has teeth \<open>a\<close> and \<open>b\<close> with numbers 3 and 4, and the
  page starts from it. After \<open>changeNumA\<close> (or \<open>changeNumB\<close>) sets the number of
  \<open>a\<close> to 9, the uploaded document itself reads 9 for \<open>a\<close>, and the new document
  holds the addresses of the very records the uploaded document holds: the record was
  written in place and is shared. The record of \<open>b\<close> is as it was.
\<close>

theorem changeNumA_mutates_original:
  "map_option (map (\<lambda>e. (fst e, num (snd e)))) (centers (read_mesh sample_store sample_mesh))
     = Some [(''a'', Fin 3), (''b'', Fin 4)]
   \<and> map_option (map (\<lambda>e. (fst e, num (snd e))))
        (centers (read_mesh
           (heap (changeNumA ''a'' (Fin 9) (initial_page sample_store (Some sample_mesh) None)))
           sample_mesh))
     = Some [(''a'', Fin 9), (''b'', Fin 4)]
   \<and> map_option ref_centers
        (mesh1Local (changeNumA ''a'' (Fin 9) (initial_page sample_store (Some sample_mesh) None)))
     = Some (ref_centers sample_mesh)
   \<and> map_option (map (\<lambda>e. (fst e, num (snd e))))
        (centers (read_mesh
           (heap (changeNumB ''a'' (Fin 9) (initial_page sample_store None (Some sample_mesh))))
           sample_mesh))
     = Some [(''a'', Fin 9), (''b'', Fin 4)]
   \<and> map_option ref_centers
        (mesh2Local (changeNumB ''a'' (Fin 9) (initial_page sample_store None (Some sample_mesh))))
     = Some (ref_centers sample_mesh)"
  by (simp add: read_mesh_def changeNumA_def changeNumB_def changeNum_updater_def
      initial_page_def sample_mesh_def sample_store_def)

section \<open>Finite vectors\<close>

lemma Fin_minus: "Fin a - Fin b = Fin (a - b)"
  by (simp add: minus_jsnum_def)

lemma strict_eq_Fin: "strict_eq (Fin a) (Fin b) = (a = b)"
  by (simp add: strict_eq_def)

lemma js_or_Fin: "js_or (Fin a) b = (if a = 0 then b else Fin a)"
  by (simp add: js_or_def truthy_def)

lemmas jsnum_simps = Fin_minus strict_eq_Fin js_or_Fin

lemma dot3_nonneg: "0 \<le> dot3 a a"
  by (cases a) (simp add: dot3_def)

lemma norm3_nonneg: "0 \<le> norm3 a"
  by (simp add: norm3_def dot3_nonneg)

lemma norm3_zero_iff: "norm3 a = 0 \<longleftrightarrow> a = (0, 0, 0)"
proof (cases a)
  case (fields x y z)
  have "x * x + y * y + z * z = 0 \<longleftrightarrow> x = 0 \<and> y = 0 \<and> z = 0"
    by (smt (verit) mult_eq_0_iff not_sum_squares_lt_zero sum_squares_eq_zero_iff zero_le_square add_nonneg_eq_0_iff)
  with fields show ?thesis by (simp add: norm3_def dot3_def)
qed

lemma dot_toVector3: "dot (toVector3 a) (toVector3 b) = Fin (dot3 a b)"
  by (cases a; cases b) (simp add: dot_def dot3_def toVector3_def)

lemma crossVectors_toVector3:
  "crossVectors (toVector3 a) (toVector3 b) = toVector3 (cross3 a b)"
  by (cases a; cases b) (simp add: crossVectors_def cross3_def toVector3_def jsnum_simps)

lemma length3_toVector3: "length3 (toVector3 a) = Fin (norm3 a)"
  by (cases a) (simp add: length3_def norm3_def dot3_def toVector3_def not_less add_nonneg_nonneg)

lemma normalize3_toVector3: "normalize3 (toVector3 a) = toVector3 (unit3 a)"
proof (cases a)
  case (fields x y z)
  have "divideScalar (toVector3 (x, y, z)) (Fin l) = toVector3 (x / l, y / l, z / l)"
    if "l \<noteq> 0" for l
    using that by (simp add: divideScalar_def multiplyScalar_def toVector3_def)
  then show ?thesis
    unfolding normalize3_def length3_toVector3 fields
    by (simp add: unit3_def Let_def jsnum_simps)
qed

lemmas vec3_simps = dot3_nonneg norm3_nonneg dot_toVector3 crossVectors_toVector3
  length3_toVector3 normalize3_toVector3

lemma dot3_unit3: "a \<noteq> (0, 0, 0) \<Longrightarrow> dot3 (unit3 a) (unit3 a) = 1"
proof (cases a)
  case (fields x y z)
  assume "a \<noteq> (0, 0, 0)"
  then have nz: "norm3 a \<noteq> 0" by (simp add: norm3_zero_iff)
  have sq: "norm3 a * norm3 a = x * x + y * y + z * z"
    using fields by (simp add: norm3_def dot3_def add_nonneg_nonneg)
  have "dot3 (unit3 a) (unit3 a) = (x * x + y * y + z * z) / (norm3 a * norm3 a)"
    using nz fields by (simp add: unit3_def dot3_def Let_def add_divide_distrib)
  moreover have "x * x + y * y + z * z \<noteq> 0"
    using nz sq by (metis mult_eq_0_iff)
  ultimately show ?thesis using sq by simp
qed

section \<open>The plane fitter\<close>

lemma newell_loop_lift:
  "newell_loop (toVector3 q) (map toVector3 ps)
     \<lparr> acc_n = Vector3 (Fin ax) (Fin ay) (Fin az),
       acc_cx = Fin sx, acc_cy = Fin sy, acc_cz = Fin sz \<rparr> =
     \<lparr> acc_n = Vector3 (Fin (ax + path_sum newell_x (q # ps)))
                      (Fin (ay + path_sum newell_y (q # ps)))
                      (Fin (az + path_sum newell_z (q # ps))),
       acc_cx = Fin (sx + sum_list (map fst ps)),
       acc_cy = Fin (sy + sum_list (map (\<lambda>p. fst (snd p)) ps)),
       acc_cz = Fin (sz + sum_list (map (\<lambda>p. snd (snd p)) ps)) \<rparr>"
proof (induction ps arbitrary: q ax ay az sx sy sz)
  case Nil
  then show ?case by simp
next
  case (Cons p ps)
  obtain xj yj zj where q: "q = (xj, yj, zj)" by (cases q)
  obtain x y z where p: "p = (x, y, z)" by (cases p)
  have step: "newell_loop (toVector3 q) (map toVector3 (p # ps))
     \<lparr> acc_n = Vector3 (Fin ax) (Fin ay) (Fin az),
       acc_cx = Fin sx, acc_cy = Fin sy, acc_cz = Fin sz \<rparr> =
     newell_loop (toVector3 p) (map toVector3 ps)
     \<lparr> acc_n = Vector3 (Fin (ax + newell_x q p)) (Fin (ay + newell_y q p)) (Fin (az + newell_z q p)),
       acc_cx = Fin (sx + x), acc_cy = Fin (sy + y), acc_cz = Fin (sz + z) \<rparr>"
    by (simp add: p q toVector3_def newell_x_def newell_y_def newell_z_def jsnum_simps)
  show ?case
    unfolding step Cons.IH by (simp add: p add.assoc)
qed

lemma newell_run_lift:
  "newell_run (map toVector3 ps) =
     \<lparr> acc_n = toVector3 (newell_acc ps),
       acc_cx = Fin (sum_list (map fst ps)),
       acc_cy = Fin (sum_list (map (\<lambda>p. fst (snd p)) ps)),
       acc_cz = Fin (sum_list (map (\<lambda>p. snd (snd p)) ps)) \<rparr>"
proof (cases ps)
  case Nil
  then show ?thesis by (simp add: newell_run_def newell_init_def newell_acc_def toVector3_def)
next
  case (Cons p r)
  have "newell_run (map toVector3 ps) =
      newell_loop (toVector3 (last ps)) (map toVector3 ps) newell_init"
    using Cons by (simp add: newell_run_def last_map)
  then show ?thesis
    unfolding newell_init_def newell_loop_lift
    using Cons by (simp add: newell_acc_def toVector3_def)
qed

lemma newellPlane_lift:
  "ps \<noteq> [] \<Longrightarrow>
     newellPlane (map toVector3 ps) = (toVector3 (unit3 (newell_acc ps)), toVector3 (centroid3 ps))"
  by (simp add: newellPlane_def newell_run_lift Let_def vec3_simps)
    (simp add: centroid3_def toVector3_def)

lemma newellPlane_normal:
  "fst (newellPlane (map toVector3 ps)) = toVector3 (unit3 (newell_acc ps))"
  by (simp add: newellPlane_def newell_run_lift Let_def vec3_simps)

lemma path_sum_snoc: "xs \<noteq> [] \<Longrightarrow> path_sum f (xs @ [b]) = path_sum f xs + f (last xs) b"
  by (induction f xs rule: path_sum.induct) auto

lemma path_sum_rev:
  assumes "\<And>a b. f b a = - f a b"
  shows "path_sum f (rev xs) = - path_sum f xs"
proof (induction xs rule: induct_list012)
  case 1
  show ?case by simp
next
  case (2 a)
  show ?case by simp
next
  case (3 a b r)
  have "path_sum f (rev (a # b # r)) = path_sum f (rev (b # r) @ [a])" by simp
  also have "\<dots> = path_sum f (rev (b # r)) + f (last (rev (b # r))) a"
    by (rule path_sum_snoc) simp
  also have "\<dots> = path_sum f (rev (b # r)) + f b a" by simp
  finally have e1: "path_sum f (rev (a # b # r)) = path_sum f (rev (b # r)) + f b a" .
  have e2: "path_sum f (rev (b # r)) = - path_sum f (b # r)" by (rule 3)
  have e3: "path_sum f (a # b # r) = f a b + path_sum f (b # r)" by simp
  have e4: "f b a = - f a b" by (rule assms)
  show ?case unfolding e1 e2 e3 e4 by linarith
qed

lemma cyclic_sum_rev:
  assumes "\<And>a b. f b a = - f a b" and "ps \<noteq> []"
  shows "path_sum f (last (rev ps) # rev ps) = - path_sum f (last ps # ps)"
proof -
  obtain h r where ps: "ps = h # r" using assms(2) by (cases ps) auto
  have e0: "last (rev ps) # rev ps = rev (ps @ [h])" by (simp add: ps)
  have e1: "path_sum f (rev (ps @ [h])) = - path_sum f (ps @ [h])"
    by (rule path_sum_rev) (rule assms(1))
  have e2: "path_sum f (ps @ [h]) = path_sum f ps + f (last ps) h"
    by (rule path_sum_snoc) (rule assms(2))
  have e3: "path_sum f (last ps # ps) = f (last ps) h + path_sum f ps"
    by (simp add: ps)
  show ?thesis unfolding e0 e1 e2 e3 by linarith
qed

lemma newell_acc_rev:
  "newell_acc (rev ps) =
     (- fst (newell_acc ps), - fst (snd (newell_acc ps)), - snd (snd (newell_acc ps)))"
proof (cases ps)
  case Nil
  then show ?thesis by (simp add: newell_acc_def)
next
  case (Cons h r)
  then have ne: "ps \<noteq> []" by simp
  have x: "newell_x b a = - newell_x a b" for a b
    by (cases a; cases b) (simp add: newell_x_def algebra_simps)
  have y: "newell_y b a = - newell_y a b" for a b
    by (cases a; cases b) (simp add: newell_y_def algebra_simps)
  have z: "newell_z b a = - newell_z a b" for a b
    by (cases a; cases b) (simp add: newell_z_def algebra_simps)
  have r: "rev ps \<noteq> []" using ne by simp
  have "newell_acc (rev ps) =
      (path_sum newell_x (last (rev ps) # rev ps), path_sum newell_y (last (rev ps) # rev ps),
       path_sum newell_z (last (rev ps) # rev ps))"
    using r by (simp add: newell_acc_def split: list.split)
  moreover have "newell_acc ps =
      (path_sum newell_x (last ps # ps), path_sum newell_y (last ps # ps),
       path_sum newell_z (last ps # ps))"
    using ne by (simp add: newell_acc_def split: list.split)
  ultimately show ?thesis
    using cyclic_sum_rev [of newell_x ps, OF x ne] cyclic_sum_rev [of newell_y ps, OF y ne]
      cyclic_sum_rev [of newell_z ps, OF z ne]
    by simp
qed

lemma norm3_uminus: "norm3 (- x, - y, - z) = norm3 (x, y, z)"
  by (simp add: norm3_def dot3_def)

lemma unit3_uminus:
  "unit3 (- x, - y, - z) = (- fst (unit3 (x, y, z)), - fst (snd (unit3 (x, y, z))),
     - snd (snd (unit3 (x, y, z))))"
  by (simp add: unit3_def norm3_uminus Let_def)

lemma negate_toVector3: "negate (toVector3 (x, y, z)) = toVector3 (- x, - y, - z)"
  by (simp add: negate_def toVector3_def)

lemma sum_list_map_rev: "sum_list (map f (rev xs)) = (sum_list (map f xs) :: real)"
  by (simp add: rev_map [symmetric])

lemma newellPlane_origin:
  "snd (newellPlane (map toVector3 (rev ps))) = snd (newellPlane (map toVector3 ps))"
  by (simp add: newellPlane_def newell_run_lift Let_def sum_list_map_rev)

lemma norm3_unit3: "a \<noteq> (0, 0, 0) \<Longrightarrow> norm3 (unit3 a) = 1"
  by (simp add: norm3_def dot3_unit3)

text \<open>
  C3, as amended. For every loop whose Newell accumulator is not the zero vector, the
  normal that \<open>newellPlane\<close> returns has length 1; and for every loop, the fitter run
  on the reversed loop returns the same centroid and the negated normal.
\<close>

theorem newellPlane_unit_and_reversal:
  "(acc_n (newell_run (map toVector3 pts)) \<noteq> Vector3 (Fin 0) (Fin 0) (Fin 0) \<longrightarrow>
      length3 (fst (newellPlane (map toVector3 pts))) = Fin 1)
   \<and> fst (newellPlane (map toVector3 (rev pts))) = negate (fst (newellPlane (map toVector3 pts)))
   \<and> snd (newellPlane (map toVector3 (rev pts))) = snd (newellPlane (map toVector3 pts))"
proof (intro conjI impI)
  assume "acc_n (newell_run (map toVector3 pts)) \<noteq> Vector3 (Fin 0) (Fin 0) (Fin 0)"
  then have "newell_acc pts \<noteq> (0, 0, 0)"
    by (auto simp: newell_run_lift toVector3_def)
  then show "length3 (fst (newellPlane (map toVector3 pts))) = Fin 1"
    by (simp add: newellPlane_normal norm3_unit3 vec3_simps)
next
  obtain x y z where a: "newell_acc pts = (x, y, z)" by (cases "newell_acc pts")
  show "fst (newellPlane (map toVector3 (rev pts))) = negate (fst (newellPlane (map toVector3 pts)))"
    unfolding newellPlane_normal newell_acc_rev a
    by (cases "unit3 (x, y, z)") (simp add: unit3_uminus negate_toVector3)
next
  show "snd (newellPlane (map toVector3 (rev pts))) = snd (newellPlane (map toVector3 pts))"
    by (rule newellPlane_origin)
qed

lemma newell_acc_square: "newell_acc square_loop = (0, 0, 8)"
  by (simp add: newell_acc_def square_loop_def newell_x_def newell_y_def newell_z_def)

theorem newellPlane_unit_and_reversal_witness:
  "acc_n (newell_run (map toVector3 square_loop)) \<noteq> Vector3 (Fin 0) (Fin 0) (Fin 0)
   \<and> length3 (fst (newellPlane (map toVector3 square_loop))) = Fin 1
   \<and> fst (newellPlane (map toVector3 (rev square_loop)))
       = negate (fst (newellPlane (map toVector3 square_loop)))"
  using newellPlane_unit_and_reversal [of square_loop]
  by (simp add: newell_run_lift newell_acc_square toVector3_def)

text \<open>
  The claim as stated fails on a collinear loop of three points: the accumulator is the
  zero vector, \<open>normalize\<close> leaves it so, and the normal has length 0.
\<close>

theorem newellPlane_collinear_not_unit:
  "3 \<le> length collinear_loop
   \<and> fst (newellPlane (map toVector3 collinear_loop)) = Vector3 (Fin 0) (Fin 0) (Fin 0)
   \<and> length3 (fst (newellPlane (map toVector3 collinear_loop))) = Fin 0"
proof -
  have "newell_acc collinear_loop = (0, 0, 0)"
    by (simp add: newell_acc_def collinear_loop_def newell_x_def newell_y_def newell_z_def)
  moreover have "unit3 (0, 0, 0) = (0, 0, 0)"
    by (simp add: unit3_def)
  ultimately have "fst (newellPlane (map toVector3 collinear_loop)) = toVector3 (0, 0, 0)"
    by (simp add: newellPlane_normal)
  then show ?thesis
    by (simp add: toVector3_def length3_def collinear_loop_def)
qed

section \<open>Collinear loops\<close>

lemma path_sum_map: "path_sum f (map h xs) = path_sum (\<lambda>a b. f (h a) (h b)) xs"
  by (induction xs rule: induct_list012) simp_all

lemma path_sum_telescope:
  assumes "\<And>a b. f a b = g a - g b" and "xs \<noteq> []"
  shows "path_sum f xs = g (hd xs) - g (last xs)"
  using assms(2)
proof (induction xs rule: induct_list012)
  case 1
  then show ?case by simp
next
  case (2 a)
  show ?case by simp
next
  case (3 a b r)
  then have ih: "path_sum f (b # r) = g b - g (last (b # r))" by simp
  have "path_sum f (a # b # r) = f a b + path_sum f (b # r)" by simp
  also have "\<dots> = (g a - g b) + (g b - g (last (b # r)))"
    unfolding ih assms(1) ..
  finally show ?case by simp
qed

lemma cyclic_sum_telescope:
  assumes "\<And>a b. f a b = g a - g b" and "xs \<noteq> []"
  shows "path_sum f (last xs # xs) = 0"
  using path_sum_telescope [of f g "last xs # xs", OF assms(1)] assms(2) by simp

lemma newell_acc_nonempty:
  "ps \<noteq> [] \<Longrightarrow>
     newell_acc ps = (path_sum newell_x (last ps # ps), path_sum newell_y (last ps # ps),
       path_sum newell_z (last ps # ps))"
  by (cases ps) (simp_all add: newell_acc_def)

lemma newell_acc_collinear: "newell_acc (map (on_line a d) ss) = (0, 0, 0)"
proof (cases ss)
  case Nil
  then show ?thesis by (simp add: newell_acc_def)
next
  case (Cons s0 r)
  obtain ax ay az where a: "a = (ax, ay, az)" by (cases a)
  obtain dx dy dz where d: "d = (dx, dy, dz)" by (cases d)
  have ne: "ss \<noteq> []" using Cons by simp
  have lst: "last (map (on_line a d) ss) # map (on_line a d) ss = map (on_line a d) (last ss # ss)"
    using ne by (simp add: last_map)
  have x: "newell_x (on_line a d s) (on_line a d t) =
      dy * (2 * az * s + dz * s * s) - dy * (2 * az * t + dz * t * t)" for s t
    by (simp add: newell_x_def on_line_def a d algebra_simps)
  have y: "newell_y (on_line a d s) (on_line a d t) =
      dz * (2 * ax * s + dx * s * s) - dz * (2 * ax * t + dx * t * t)" for s t
    by (simp add: newell_y_def on_line_def a d algebra_simps)
  have z: "newell_z (on_line a d s) (on_line a d t) =
      dx * (2 * ay * s + dy * s * s) - dx * (2 * ay * t + dy * t * t)" for s t
    by (simp add: newell_z_def on_line_def a d algebra_simps)
  have "path_sum newell_x (map (on_line a d) (last ss # ss)) = 0"
    unfolding path_sum_map by (rule cyclic_sum_telescope [OF x ne])
  moreover have "path_sum newell_y (map (on_line a d) (last ss # ss)) = 0"
    unfolding path_sum_map by (rule cyclic_sum_telescope [OF y ne])
  moreover have "path_sum newell_z (map (on_line a d) (last ss # ss)) = 0"
    unfolding path_sum_map by (rule cyclic_sum_telescope [OF z ne])
  moreover have "map (on_line a d) ss \<noteq> []" using ne by simp
  ultimately show ?thesis
    unfolding newell_acc_nonempty [OF \<open>map (on_line a d) ss \<noteq> []\<close>] lst by simp
qed

lemma unit3_zero: "unit3 (0, 0, 0) = (0, 0, 0)"
  by (simp add: unit3_def)

lemma pickers_loop_keeps: "pk \<in> set ps \<Longrightarrow> pk \<in> set (pickers_loop tp eb es ps)"
  by (induction es arbitrary: ps) (auto split: option.splits)

lemma pickers_loop_member:
  "(ident, t) \<in> set es \<Longrightarrow> picker_for tp eb ident t = Some pk \<Longrightarrow>
     pk \<in> set (pickers_loop tp eb es ps)"
proof (induction es arbitrary: ps)
  case Nil
  then show ?case by simp
next
  case (Cons e es)
  show ?case
  proof (cases "e = (ident, t)")
    case True
    then show ?thesis
      using Cons.prems(2) pickers_loop_keeps [of pk "ps @ [pk]" tp eb es] by simp
  next
    case False
    then have "(ident, t) \<in> set es" using Cons.prems(1) by simp
    from Cons.IH [OF this Cons.prems(2)] show ?thesis
      by (cases e) simp
  qed
qed

lemma picker_for_normal:
  assumes "prep t = 1" and "spline t = Some sp" and "3 \<le> length sp"
  shows "\<exists>pk. picker_for None eb ident t = Some pk
     \<and> userData_toothId pk = Some ident
     \<and> plane_normal (pk_plane pk) = fst (newellPlane (map toVector3 sp))"
  using assms
  by (cases "newellPlane (map toVector3 sp)")
    (simp add: picker_for_def new_ToothPicker_def Let_def setFromNormalAndCoplanarPoint_def)

text \<open>
  C6, as amended. For a tooth with \<open>prep\<close> 1 whose loop is three or more points of
  one line, the registry does not skip the loop: it builds a region tagged with the
  tooth's id, and the plane normal of that region is the normal \<open>newellPlane\<close> returns
  for the loop, handed on as it is. Neither the registry nor the constructor looks at the
  accumulator or at the normal, so a collinear loop is treated as any other loop of three
  or more points. All functions are total, so nothing is thrown.
\<close>

theorem collinear_loop_region:
  assumes "(ident, t) \<in> set (entries_of json)" and "prep t = 1"
    and "spline t = Some (map (on_line a d) ss)" and "3 \<le> length ss"
  shows "\<exists>pk \<in> set (buildToothPickersById json None eb).
           userData_toothId pk = Some ident
           \<and> plane_normal (pk_plane pk) =
               fst (newellPlane (map toVector3 (map (on_line a d) ss)))"
proof -
  from picker_for_normal [OF assms(2,3), of eb ident] assms(4)
  obtain pk where pk: "picker_for None eb ident t = Some pk"
      "userData_toothId pk = Some ident"
      "plane_normal (pk_plane pk) = fst (newellPlane (map toVector3 (map (on_line a d) ss)))"
    by auto
  have "pk \<in> set (buildToothPickersById json None eb)"
    using pickers_loop_member [OF _ pk(1), of "entries_of json" "[]"] assms(1)
    by (simp add: buildToothPickersById_def entries_of_def)
  then show ?thesis using pk(2,3) by blast
qed

lemma collinear_loop_on_line: "collinear_loop = map (on_line (0, 0, 0) (1, 0, 0)) [0, 1, 2]"
  by (simp add: collinear_loop_def on_line_def)

theorem collinear_loop_region_witness:
  "\<exists>pk \<in> set (buildToothPickersById collinear_doc None (Fin 1)).
      userData_toothId pk = Some ''a''
      \<and> plane_normal (pk_plane pk) = fst (newellPlane (map toVector3 collinear_loop))"
  using collinear_loop_region [of "''a''" "sample_tooth 1 (Some collinear_loop)" collinear_doc
      "(0, 0, 0)" "(1, 0, 0)" "[0, 1, 2]" "Fin 1"]
  by (simp add: collinear_doc_def entries_of_def sample_tooth_def collinear_loop_on_line)

text \<open>
  The claim as stated fails: for the collinear loop of three points the registry returns
  a region, it does not skip the loop.
\<close>

theorem collinear_loop_not_skipped:
  "map userData_toothId (buildToothPickersById collinear_doc None (Fin 1)) = [Some ''a'']"
  unfolding buildToothPickersById_def pickers_loop_ids
  by (simp add: collinear_doc_def has_region_def sample_tooth_def collinear_loop_def)

section \<open>The local plane frame\<close>

lemma basis_matrix:
  "setPosition (makeBasis (toVector3 (ux, uy, uz)) (toVector3 (vx, vy, vz)) (toVector3 (nx, ny, nz)))
     (toVector3 (ox, oy, oz)) =
   Matrix4 (Fin ux) (Fin uy) (Fin uz) (Fin 0) (Fin vx) (Fin vy) (Fin vz) (Fin 0)
           (Fin nx) (Fin ny) (Fin nz) (Fin 0) (Fin ox) (Fin oy) (Fin oz) (Fin 1)"
  by (simp add: makeBasis_def toVector3_def)

lemma applyMatrix4_affine:
  "applyMatrix4 (Vector3 (Fin x) (Fin y) (Fin z))
     (Matrix4 (Fin a0) (Fin a1) (Fin a2) (Fin 0) (Fin a4) (Fin a5) (Fin a6) (Fin 0)
        (Fin a8) (Fin a9) (Fin a10) (Fin 0) (Fin a12) (Fin a13) (Fin a14) (Fin 1)) =
   Vector3 (Fin (a0 * x + a4 * y + a8 * z + a12)) (Fin (a1 * x + a5 * y + a9 * z + a13))
     (Fin (a2 * x + a6 * y + a10 * z + a14))"
  by (simp add: applyMatrix4_def)

lemma invert_affine:
  fixes ux uy uz vx vy vz nx ny nz ox oy oz :: real
  defines "D \<equiv> ux * (vy * nz - ny * vz) + uy * (nx * vz - vx * nz) + uz * (vx * ny - nx * vy)"
  assumes nz: "D \<noteq> 0"
  shows "invert (Matrix4 (Fin ux) (Fin uy) (Fin uz) (Fin 0) (Fin vx) (Fin vy) (Fin vz) (Fin 0)
           (Fin nx) (Fin ny) (Fin nz) (Fin 0) (Fin ox) (Fin oy) (Fin oz) (Fin 1)) =
     Matrix4 (Fin ((vy * nz - ny * vz) / D)) (Fin ((ny * uz - uy * nz) / D))
       (Fin ((uy * vz - vy * uz) / D)) (Fin 0)
       (Fin ((nx * vz - vx * nz) / D)) (Fin ((ux * nz - nx * uz) / D))
       (Fin ((vx * uz - ux * vz) / D)) (Fin 0)
       (Fin ((vx * ny - nx * vy) / D)) (Fin ((nx * uy - ux * ny) / D))
       (Fin ((ux * vy - vx * uy) / D)) (Fin 0)
       (Fin ((ox * ny * vz - nx * oy * vz - ox * vy * nz + vx * oy * nz + nx * vy * oz
              - vx * ny * oz) / D))
       (Fin ((nx * oy * uz - ox * ny * uz + ox * uy * nz - ux * oy * nz - nx * uy * oz
              + ux * ny * oz) / D))
       (Fin ((ox * vy * uz - vx * oy * uz - ox * uy * vz + ux * oy * vz + vx * uy * oz
              - ux * vy * oz) / D))
       (Fin 1)"
proof -
  have last: "vx * ny * uz - nx * vy * uz + nx * uy * vz - ux * ny * vz - vx * uy * nz
      + ux * vy * nz = D"
    by (simp add: D_def algebra_simps)
  show ?thesis
    using nz unfolding D_def [symmetric]
    by (simp add: Let_def jsnum_simps) (simp add: D_def [symmetric] last)
qed

lemma det3_simp_form:
  "ux * (vy * nz - ny * vz) + uy * (nx * vz - vx * nz) + uz * (vx * ny - nx * vy)
     = det3 (ux, uy, uz) (vx, vy, vz) (nx, ny, nz)"
  by (simp add: det3_def dot3_def cross3_def algebra_simps)

lemma applyMatrix4_toWorld:
  "applyMatrix4 (toVector3 q)
     (setPosition (makeBasis (toVector3 u) (toVector3 v) (toVector3 n)) (toVector3 org))
   = toVector3 (to_world u v n org q)"
  by (cases u; cases v; cases n; cases org; cases q)
    (simp add: basis_matrix, simp add: toVector3_def applyMatrix4_affine to_world_def)

lemma applyMatrix4_toLocal:
  assumes "det3 u v n \<noteq> 0"
  shows "applyMatrix4 (toVector3 p)
     (invert (setPosition (makeBasis (toVector3 u) (toVector3 v) (toVector3 n)) (toVector3 org)))
   = toVector3 (to_local u v n org p)"
proof -
  obtain ux uy uz where u: "u = (ux, uy, uz)" by (cases u)
  obtain vx vy vz where v: "v = (vx, vy, vz)" by (cases v)
  obtain nx ny nz where n: "n = (nx, ny, nz)" by (cases n)
  obtain ox oy oz where org: "org = (ox, oy, oz)" by (cases org)
  obtain x y z where p: "p = (x, y, z)" by (cases p)
  define D where "D = ux * (vy * nz - ny * vz) + uy * (nx * vz - vx * nz) + uz * (vx * ny - nx * vy)"
  have D: "D = det3 u v n" by (simp add: D_def det3_simp_form u v n)
  then have nz: "D \<noteq> 0" using assms by simp
  have x: "(vy * nz - ny * vz) / D * x + (nx * vz - vx * nz) / D * y + (vx * ny - nx * vy) / D * z
      + (ox * ny * vz - nx * oy * vz - ox * vy * nz + vx * oy * nz + nx * vy * oz - vx * ny * oz) / D
      = dot3 (cross3 v n) (sub3 p org) / D"
    by (simp add: u v n org p dot3_def cross3_def sub3_def add_divide_distrib [symmetric]
        diff_divide_distrib [symmetric] algebra_simps)
  have y: "(ny * uz - uy * nz) / D * x + (ux * nz - nx * uz) / D * y + (nx * uy - ux * ny) / D * z
      + (nx * oy * uz - ox * ny * uz + ox * uy * nz - ux * oy * nz - nx * uy * oz + ux * ny * oz) / D
      = dot3 (cross3 n u) (sub3 p org) / D"
    by (simp add: u v n org p dot3_def cross3_def sub3_def add_divide_distrib [symmetric]
        diff_divide_distrib [symmetric] algebra_simps)
  have z: "(uy * vz - vy * uz) / D * x + (vx * uz - ux * vz) / D * y + (ux * vy - vx * uy) / D * z
      + (ox * vy * uz - vx * oy * uz - ox * uy * vz + ux * oy * vz + vx * uy * oz - ux * vy * oz) / D
      = dot3 (cross3 u v) (sub3 p org) / D"
    by (simp add: u v n org p dot3_def cross3_def sub3_def add_divide_distrib [symmetric]
        diff_divide_distrib [symmetric] algebra_simps)
  show ?thesis
    unfolding u v n org p basis_matrix invert_affine [OF nz [unfolded D_def]]
    unfolding toVector3_def prod.case applyMatrix4_affine D_def [symmetric] x y z
    by (simp add: to_local_def D u v n org p)
qed

lemma cramer_world:
  "to_world u v n (0, 0, 0)
     (dot3 (cross3 v n) a, dot3 (cross3 n u) a, dot3 (cross3 u v) a)
   = (det3 u v n * fst a, det3 u v n * fst (snd a), det3 u v n * snd (snd a))"
  by (cases u; cases v; cases n; cases a)
    (simp add: to_world_def dot3_def cross3_def det3_def algebra_simps)

lemma cramer_local:
  "dot3 (cross3 v n) (sub3 (to_world u v n org q) org) = det3 u v n * fst q"
  "dot3 (cross3 n u) (sub3 (to_world u v n org q) org) = det3 u v n * fst (snd q)"
  "dot3 (cross3 u v) (sub3 (to_world u v n org q) org) = det3 u v n * snd (snd q)"
  by (cases u; cases v; cases n; cases org; cases q;
      simp add: to_world_def dot3_def cross3_def det3_def sub3_def algebra_simps)+

lemma to_local_to_world:
  assumes "det3 u v n \<noteq> 0"
  shows "to_local u v n org (to_world u v n org q) = q"
  using assms by (cases q) (simp add: to_local_def cramer_local)

lemma to_world_shift:
  "to_world u v n org q =
     (fst (to_world u v n (0, 0, 0) q) + fst org,
      fst (snd (to_world u v n (0, 0, 0) q)) + fst (snd org),
      snd (snd (to_world u v n (0, 0, 0) q)) + snd (snd org))"
  by (cases u; cases v; cases n; cases org; cases q) (simp add: to_world_def)

lemma to_world_scale:
  "to_world u v n (0, 0, 0) (x / d, y / d, z / d) =
     (fst (to_world u v n (0, 0, 0) (x, y, z)) / d,
      fst (snd (to_world u v n (0, 0, 0) (x, y, z))) / d,
      snd (snd (to_world u v n (0, 0, 0) (x, y, z))) / d)"
  by (cases u; cases v; cases n) (simp add: to_world_def add_divide_distrib)

lemma to_world_to_local:
  assumes "det3 u v n \<noteq> 0"
  shows "to_world u v n org (to_local u v n org p) = p"
proof -
  obtain ox oy oz where org: "org = (ox, oy, oz)" by (cases org)
  obtain x y z where p: "p = (x, y, z)" by (cases p)
  show ?thesis
    unfolding to_local_def
    by (subst to_world_shift) (simp add: to_world_scale cramer_world assms org p sub3_def)
qed

lemma buildBasis_toVector3:
  "buildBasis (toVector3 nrm) (toVector3 org) =
     \<lparr> frame_u = toVector3 (basis_u nrm), frame_v = toVector3 (basis_v nrm),
       frame_n = toVector3 (unit3 nrm), frame_origin = toVector3 org,
       frame_toWorld = setPosition (makeBasis (toVector3 (basis_u nrm)) (toVector3 (basis_v nrm))
           (toVector3 (unit3 nrm))) (toVector3 org),
       frame_toLocal = invert (setPosition (makeBasis (toVector3 (basis_u nrm))
           (toVector3 (basis_v nrm)) (toVector3 (unit3 nrm))) (toVector3 org)) \<rparr>"
proof -
  have t: "(if Math_abs (y3 (toVector3 n)) < Fin (9 / 10) then Vector3 (Fin 0) (Fin 1) (Fin 0)
            else Vector3 (Fin 1) (Fin 0) (Fin 0)) = toVector3 (basis_t n)" for n
    by (cases n) (simp add: basis_t_def toVector3_def)
  show ?thesis
    unfolding buildBasis_def Let_def normalize3_toVector3 t crossVectors_toVector3
    by (simp add: basis_u_def basis_v_def)
qed

lemma det3_cross: "det3 u (cross3 n u) n = dot3 u u * dot3 n n - dot3 u n * dot3 u n"
  by (cases u; cases n) (simp add: det3_def dot3_def cross3_def algebra_simps)

lemma dot3_cross_left: "dot3 (cross3 n t) n = 0"
  by (cases n; cases t) (simp add: dot3_def cross3_def algebra_simps)

lemma unit3_scale:
  "unit3 w = (fst w / l, fst (snd w) / l, snd (snd w) / l) \<and> 0 < l"
  if "l = (if norm3 w = 0 then 1 else norm3 w)"
proof -
  have "0 \<le> norm3 w" by (rule norm3_nonneg)
  then have "0 < l" using that by (auto simp: less_le)
  then show ?thesis using that by (cases w) (simp add: unit3_def Let_def)
qed

lemma dot3_scale_left: "dot3 (x / l, y / l, z / l) n = dot3 (x, y, z) n / l"
  by (cases n) (simp add: dot3_def add_divide_distrib)

lemma det3_scale_mid: "det3 u (x / l, y / l, z / l) n = det3 u (x, y, z) n / l"
proof (cases "l = 0")
  case True
  then show ?thesis by (cases u; cases n) (simp add: det3_def dot3_def cross3_def)
next
  case False
  then show ?thesis
    by (cases u; cases n) (simp add: det3_def dot3_def cross3_def field_simps)
qed

lemma cross3_basis_t_nonzero:
  assumes "dot3 n n = 1"
  shows "cross3 n (basis_t n) \<noteq> (0, 0, 0)"
proof (cases n)
  case (fields a b c)
  show ?thesis
  proof (cases "\<bar>b\<bar> < 9 / 10")
    case True
    have "\<not> (a = 0 \<and> c = 0)"
    proof
      assume "a = 0 \<and> c = 0"
      with assms fields have "b * b = 1" by (simp add: dot3_def)
      then have "\<bar>b\<bar> = 1" by (simp add: abs_square_eq_1 [symmetric] power2_eq_square)
      with True show False by simp
    qed
    with True fields show ?thesis by (auto simp: basis_t_def cross3_def)
  next
    case False
    then have "b \<noteq> 0" by auto
    with False fields show ?thesis by (auto simp: basis_t_def cross3_def)
  qed
qed

lemma det3_basis:
  assumes "nrm \<noteq> (0, 0, 0)"
  shows "det3 (basis_u nrm) (basis_v nrm) (unit3 nrm) \<noteq> 0"
proof -
  define n where "n = unit3 nrm"
  define w where "w = cross3 n (basis_t n)"
  define u where "u = unit3 w"
  define w2 where "w2 = cross3 n u"
  define l2 where "l2 = (if norm3 w2 = 0 then 1 else norm3 w2)"
  have nn: "dot3 n n = 1" using assms by (simp add: n_def dot3_unit3)
  have "w \<noteq> (0, 0, 0)" unfolding w_def by (rule cross3_basis_t_nonzero [OF nn])
  then have uu: "dot3 u u = 1" by (simp add: u_def dot3_unit3)
  obtain l where ul: "u = (fst w / l, fst (snd w) / l, snd (snd w) / l)"
    using unit3_scale [of _ w] by (auto simp: u_def)
  have "dot3 u n = dot3 w n / l"
    unfolding ul by (cases w) (simp add: dot3_scale_left)
  then have un: "dot3 u n = 0" by (simp add: w_def dot3_cross_left)
  have v: "unit3 w2 = (fst w2 / l2, fst (snd w2) / l2, snd (snd w2) / l2)" and l2: "0 < l2"
    using unit3_scale [of l2 w2] by (auto simp: l2_def)
  have "det3 u (unit3 w2) n = det3 u w2 n / l2"
    unfolding v by (cases w2) (simp add: det3_scale_mid)
  also have "det3 u w2 n = 1"
    unfolding w2_def det3_cross by (simp add: uu nn un)
  finally have "det3 u (unit3 w2) n = 1 / l2" .
  with l2 have "det3 u (unit3 w2) n \<noteq> 0" by simp
  then show ?thesis
    by (simp add: basis_u_def basis_v_def n_def w_def u_def w2_def)
qed

text \<open>
  C4. For the frame that \<open>buildBasis\<close> builds from a normal other than the zero
  vector, so from every unit normal, and an origin: mapping a point with \<open>toLocal\<close>
  and then \<open>toWorld\<close> returns the point, and so does mapping it with \<open>toWorld\<close> and
  then \<open>toLocal\<close>. In exact arithmetic the point comes back exactly.
\<close>

theorem frame_round_trip:
  assumes "nrm \<noteq> (0, 0, 0)"
  shows "applyMatrix4
           (applyMatrix4 (toVector3 p) (frame_toLocal (buildBasis (toVector3 nrm) (toVector3 org))))
           (frame_toWorld (buildBasis (toVector3 nrm) (toVector3 org))) = toVector3 p
       \<and> applyMatrix4
           (applyMatrix4 (toVector3 p) (frame_toWorld (buildBasis (toVector3 nrm) (toVector3 org))))
           (frame_toLocal (buildBasis (toVector3 nrm) (toVector3 org))) = toVector3 p"
  using det3_basis [OF assms]
  by (simp add: buildBasis_toVector3 applyMatrix4_toLocal applyMatrix4_toWorld
      to_world_to_local to_local_to_world)

theorem frame_round_trip_witness:
  "applyMatrix4
     (applyMatrix4 (toVector3 (1, 2, 3))
        (frame_toLocal (buildBasis (toVector3 (0, 0, 1)) (toVector3 (1, 1, 0)))))
     (frame_toWorld (buildBasis (toVector3 (0, 0, 1)) (toVector3 (1, 1, 0)))) = toVector3 (1, 2, 3)
   \<and> applyMatrix4
     (applyMatrix4 (toVector3 (1, 2, 3))
        (frame_toWorld (buildBasis (toVector3 (0, 0, 1)) (toVector3 (1, 1, 0)))))
     (frame_toLocal (buildBasis (toVector3 (0, 0, 1)) (toVector3 (1, 1, 0)))) = toVector3 (1, 2, 3)"
  using frame_round_trip [of "(0, 0, 1)" "(1, 2, 3)" "(1, 1, 0)"] by simp

section \<open>The inner loop of the sleeve\<close>

lemma foldl_plus_Fin:
  "foldl (\<lambda>s p. s + g p) (Fin a) (map (\<lambda>q. h q) qs) = Fin (a + sum_list (map f qs))"
  if "\<And>q. g (h q) = Fin (f q)"
  using that by (induction qs arbitrary: a) (simp_all add: add.assoc)

lemma set_insert_sorted: "set (insert_sorted cmp a bs) = insert a (set bs)"
  by (induction bs) auto

lemma length_insert_sorted: "length (insert_sorted cmp a bs) = Suc (length bs)"
  by (induction bs) auto

lemma set_foldl_insert_sorted:
  "set (foldl (\<lambda>sorted a. insert_sorted cmp a sorted) init xs) = set init \<union> set xs"
  by (induction xs arbitrary: init) (auto simp: set_insert_sorted)

lemma length_foldl_insert_sorted:
  "length (foldl (\<lambda>sorted a. insert_sorted cmp a sorted) init xs) = length init + length xs"
  by (induction xs arbitrary: init) (auto simp: length_insert_sorted)

lemma set_array_sort: "set (array_sort cmp xs) = set xs"
  by (simp add: array_sort_def set_foldl_insert_sorted)

lemma length_array_sort: "length (array_sort cmp xs) = length xs"
  by (simp add: array_sort_def length_foldl_insert_sorted)

lemma set_sleeve_outer: "set (sleeve_outer spl) = set (sleeve_pts2 spl)"
  by (simp add: sleeve_outer_def Let_def set_array_sort image_image)

lemma length_sleeve_outer: "length (sleeve_outer spl) = length spl"
  by (simp add: sleeve_outer_def Let_def length_array_sort sleeve_pts2_def)

lemma sleeve_toWorld_finite:
  assumes "spl \<noteq> []"
  shows "sleeve_toWorld spl =
     setPosition (makeBasis (toVector3 (basis_u (newell_acc spl)))
         (toVector3 (basis_v (newell_acc spl))) (toVector3 (unit3 (newell_acc spl))))
       (toVector3 (centroid3 spl))"
proof -
  have t: "(if Math_abs (y3 (toVector3 n)) < Fin (9 / 10) then Vector3 (Fin 0) (Fin 1) (Fin 0)
            else Vector3 (Fin 1) (Fin 0) (Fin 0)) = toVector3 (basis_t n)" for n
    by (cases n) (simp add: basis_t_def toVector3_def)
  have c: "Vector3 (Fin a / Fin (real (length spl))) (Fin b / Fin (real (length spl)))
      (Fin c / Fin (real (length spl)))
      = toVector3 (a / real (length spl), b / real (length spl), c / real (length spl))" for a b c
    using assms by (simp add: toVector3_def)
  show ?thesis
    unfolding sleeve_toWorld_def Let_def newell_run_lift length_map
    using assms
    by (simp add: t basis_u_def basis_v_def centroid3_def vec3_simps) (simp add: toVector3_def)
qed

lemma newell_acc_nonzero_nonempty: "newell_acc spl \<noteq> (0, 0, 0) \<Longrightarrow> spl \<noteq> []"
  by (auto simp: newell_acc_def)

lemma sleeve_pts2_finite:
  assumes "newell_acc spl \<noteq> (0, 0, 0)"
  shows "sleeve_pts2 spl = map (\<lambda>p. Vector2 (Fin (fst (local2 spl p))) (Fin (snd (local2 spl p)))) spl"
proof -
  have ne: "spl \<noteq> []" using assms by (rule newell_acc_nonzero_nonempty)
  have det: "det3 (basis_u (newell_acc spl)) (basis_v (newell_acc spl)) (unit3 (newell_acc spl)) \<noteq> 0"
    using assms by (rule det3_basis)
  show ?thesis
    unfolding sleeve_pts2_def Let_def sleeve_toWorld_finite [OF ne] map_map comp_def
      applyMatrix4_toLocal [OF det]
    by (simp add: local2_def Let_def toVector3_def split: prod.split)
qed

lemma sleeve_c2_finite:
  assumes "newell_acc spl \<noteq> (0, 0, 0)"
  shows "\<exists>cx cy. sleeve_c2 spl = Vector2 (Fin cx) (Fin cy)"
proof -
  have ne: "spl \<noteq> []" using assms by (rule newell_acc_nonzero_nonempty)
  have x: "foldl (\<lambda>s p. s + x2 p) (Fin 0)
      (map (\<lambda>p. Vector2 (Fin (fst (local2 spl p))) (Fin (snd (local2 spl p)))) spl)
      = Fin (0 + sum_list (map (\<lambda>p. fst (local2 spl p)) spl))"
    by (rule foldl_plus_Fin) simp
  have y: "foldl (\<lambda>s p. s + y2 p) (Fin 0)
      (map (\<lambda>p. Vector2 (Fin (fst (local2 spl p))) (Fin (snd (local2 spl p)))) spl)
      = Fin (0 + sum_list (map (\<lambda>p. snd (local2 spl p)) spl))"
    by (rule foldl_plus_Fin) simp
  show ?thesis
    unfolding sleeve_c2_def Let_def sleeve_pts2_finite [OF assms] x y
    using ne by simp
qed

lemma Math_max_Fin: "Math_max (Fin a) (Fin b) = Fin (max a b)"
  by (simp add: Math_max_def max_def)

lemma inner_point_finite:
  assumes "0 \<le> w"
  shows "\<exists>k. 0 \<le> k \<and> k \<le> 1
     \<and> (sqrt ((px - cx)\<^sup>2 + (py - cy)\<^sup>2) \<noteq> 0 \<longrightarrow>
          k = max 0 (1 - w / sqrt ((px - cx)\<^sup>2 + (py - cy)\<^sup>2)))
     \<and> inner_point (Fin w) (Vector2 (Fin cx) (Fin cy)) (Vector2 (Fin px) (Fin py))
         = Vector2 (Fin (cx + k * (px - cx))) (Fin (cy + k * (py - cy)))"
proof -
  define d where "d = sqrt ((px - cx)\<^sup>2 + (py - cy)\<^sup>2)"
  define len where "len = (if d = 0 then 1 / 10 ^ 8 else d)"
  define k where "k = max 0 (1 - w / len)"
  have d0: "0 \<le> d" by (simp add: d_def)
  then have lpos: "0 < len" by (auto simp: len_def less_le)
  have l2: "length2 (Vector2 (Fin (px - cx)) (Fin (py - cy))) = Fin d"
    by (simp add: length2_def d_def power2_eq_square not_less add_nonneg_nonneg)
  have "0 \<le> w / len" using assms lpos by simp
  then have k01: "0 \<le> k \<and> k \<le> 1" by (simp add: k_def)
  have jl: "js_or (length2 (Vector2 (Fin (px - cx)) (Fin (py - cy)))) (Fin (1 / 10 ^ 8)) = Fin len"
    by (simp add: l2 len_def jsnum_simps)
  have kk: "Math_max (Fin 0) (Fin 1 - Fin w / Fin len) = Fin k"
    using lpos by (simp add: k_def jsnum_simps Math_max_Fin)
  have "inner_point (Fin w) (Vector2 (Fin cx) (Fin cy)) (Vector2 (Fin px) (Fin py))
      = Vector2 (Fin (cx + (px - cx) * k)) (Fin (cy + (py - cy) * k))"
    unfolding inner_point_def Let_def vec2.sel Fin_minus jl kk by simp
  moreover have "d \<noteq> 0 \<longrightarrow> k = max 0 (1 - w / d)" by (simp add: k_def len_def)
  ultimately show ?thesis
    using k01 unfolding d_def by (intro exI [of _ k]) (simp add: mult.commute)
qed

text \<open>
  C7, as amended. For a spline whose Newell accumulator is not the zero vector, the
  centroid and the outer points are finite, and for every wall thickness \<open>w \<ge> 0\<close> the
  \<open>i\<close>-th inner point is the centroid plus \<open>k\<close> times the offset of the \<open>i\<close>-th
  outer point from the centroid, with \<open>0 \<le> k \<le> 1\<close>: it lies on the segment from the
  centroid to the outer point. Where the outer point is off the centroid, \<open>k\<close> is
  \<open>max 0 (1 - w / dist)\<close> for its distance \<open>dist\<close> to the centroid.
\<close>

theorem sleeve_inner_on_segment:
  assumes "acc_n (newell_run (map toVector3 spl)) \<noteq> Vector3 (Fin 0) (Fin 0) (Fin 0)"
    and "0 \<le> w" and "i < length (sleeve_outer spl)"
  shows "\<exists>cx cy px py k.
     sleeve_c2 spl = Vector2 (Fin cx) (Fin cy)
     \<and> sleeve_outer spl ! i = Vector2 (Fin px) (Fin py)
     \<and> 0 \<le> k \<and> k \<le> 1
     \<and> (sqrt ((px - cx)\<^sup>2 + (py - cy)\<^sup>2) \<noteq> 0 \<longrightarrow>
          k = max 0 (1 - w / sqrt ((px - cx)\<^sup>2 + (py - cy)\<^sup>2)))
     \<and> sleeve_inner spl (Fin w) ! i = Vector2 (Fin (cx + k * (px - cx))) (Fin (cy + k * (py - cy)))"
proof -
  have nz: "newell_acc spl \<noteq> (0, 0, 0)"
    using assms(1) by (auto simp: newell_run_lift toVector3_def)
  obtain cx cy where c: "sleeve_c2 spl = Vector2 (Fin cx) (Fin cy)"
    using sleeve_c2_finite [OF nz] by blast
  have "sleeve_outer spl ! i \<in> set (sleeve_pts2 spl)"
    using assms(3) set_sleeve_outer [of spl] nth_mem by blast
  then obtain px py where p: "sleeve_outer spl ! i = Vector2 (Fin px) (Fin py)"
    unfolding sleeve_pts2_finite [OF nz] by auto
  from inner_point_finite [OF assms(2), of px cx py cy] obtain k where
    k: "0 \<le> k" "k \<le> 1"
      "sqrt ((px - cx)\<^sup>2 + (py - cy)\<^sup>2) \<noteq> 0 \<longrightarrow>
         k = max 0 (1 - w / sqrt ((px - cx)\<^sup>2 + (py - cy)\<^sup>2))"
      "inner_point (Fin w) (Vector2 (Fin cx) (Fin cy)) (Vector2 (Fin px) (Fin py))
         = Vector2 (Fin (cx + k * (px - cx))) (Fin (cy + k * (py - cy)))"
    by blast
  have "sleeve_inner spl (Fin w) ! i = inner_point (Fin w) (sleeve_c2 spl) (sleeve_outer spl ! i)"
    using assms(3) by (simp add: sleeve_inner_def)
  with c p k show ?thesis by auto
qed

theorem sleeve_inner_on_segment_witness:
  "\<exists>cx cy px py k.
     sleeve_c2 square_loop = Vector2 (Fin cx) (Fin cy)
     \<and> sleeve_outer square_loop ! 0 = Vector2 (Fin px) (Fin py)
     \<and> 0 \<le> k \<and> k \<le> 1
     \<and> (sqrt ((px - cx)\<^sup>2 + (py - cy)\<^sup>2) \<noteq> 0 \<longrightarrow>
          k = max 0 (1 - (4 / 5) / sqrt ((px - cx)\<^sup>2 + (py - cy)\<^sup>2)))
     \<and> sleeve_inner square_loop (Fin (4 / 5)) ! 0
         = Vector2 (Fin (cx + k * (px - cx))) (Fin (cy + k * (py - cy)))"
proof -
  have h1: "acc_n (newell_run (map toVector3 square_loop)) \<noteq> Vector3 (Fin 0) (Fin 0) (Fin 0)"
    by (simp add: newell_run_lift newell_acc_square toVector3_def)
  have h2: "(0::real) \<le> 4 / 5" by simp
  have h3: "0 < length (sleeve_outer square_loop)"
    by (simp add: length_sleeve_outer square_loop_def)
  show ?thesis by (rule sleeve_inner_on_segment [OF h1 h2 h3])
qed

text \<open>
  The claim as stated fails on the collinear loop of three points, for which the builder
  does produce geometry: the frame is singular, \<open>invert\<close> returns the zero matrix, and
  the projected points, the centroid and the inner points are all \<open>NaN\<close>.
\<close>

lemma sleeve_toWorld_collinear:
  "sleeve_toWorld collinear_loop =
     Matrix4 (Fin 0) (Fin 0) (Fin 0) (Fin 0) (Fin 0) (Fin 0) (Fin 0) (Fin 0)
       (Fin 0) (Fin 0) (Fin 0) (Fin 0) (Fin 1) (Fin 0) (Fin 0) (Fin 1)"
proof -
  have a: "newell_acc collinear_loop = (0, 0, 0)"
    using newell_acc_collinear [of "(0, 0, 0)" "(1, 0, 0)" "[0, 1, 2]"]
    by (simp add: collinear_loop_on_line)
  have ne: "collinear_loop \<noteq> []" by (simp add: collinear_loop_def)
  have u: "basis_u (0, 0, 0) = (0, 0, 0)"
    by (simp add: basis_u_def unit3_zero basis_t_def cross3_def)
  have v: "basis_v (0, 0, 0) = (0, 0, 0)"
    by (simp add: basis_v_def u unit3_zero cross3_def)
  have c: "centroid3 collinear_loop = (1, 0, 0)"
    by (simp add: centroid3_def collinear_loop_def)
  show ?thesis
    unfolding sleeve_toWorld_finite [OF ne] a u v c unit3_zero
    by (simp add: makeBasis_def toVector3_def)
qed

lemma sleeve_pts2_collinear:
  "sleeve_pts2 collinear_loop = [Vector2 NaN NaN, Vector2 NaN NaN, Vector2 NaN NaN]"
  unfolding sleeve_pts2_def Let_def sleeve_toWorld_collinear
  by (simp add: zero_mat4_def applyMatrix4_def collinear_loop_def toVector3_def jsnum_simps)

lemma sleeve_c2_collinear: "sleeve_c2 collinear_loop = Vector2 NaN NaN"
  unfolding sleeve_c2_def Let_def sleeve_pts2_collinear by simp

lemma sleeve_outer_collinear:
  "sleeve_outer collinear_loop = [Vector2 NaN NaN, Vector2 NaN NaN, Vector2 NaN NaN]"
  unfolding sleeve_outer_def Let_def sleeve_pts2_collinear sleeve_c2_collinear
  by (simp add: array_sort_def minus_jsnum_def)

theorem sleeve_inner_collinear_NaN:
  "HollowSleeveOnSpline collinear_loop (Fin (4 / 5)) (Fin 3) \<noteq> None
   \<and> sleeve_c2 collinear_loop = Vector2 NaN NaN
   \<and> sleeve_outer collinear_loop = [Vector2 NaN NaN, Vector2 NaN NaN, Vector2 NaN NaN]
   \<and> sleeve_inner collinear_loop (Fin (4 / 5)) = [Vector2 NaN NaN, Vector2 NaN NaN, Vector2 NaN NaN]"
proof -
  have "HollowSleeveOnSpline collinear_loop (Fin (4 / 5)) (Fin 3) \<noteq> None"
    by (simp add: HollowSleeveOnSpline_def sleeve_memo_def collinear_loop_def)
  moreover have "sleeve_inner collinear_loop (Fin (4 / 5))
      = [Vector2 NaN NaN, Vector2 NaN NaN, Vector2 NaN NaN]"
    by (simp add: sleeve_inner_def sleeve_outer_collinear sleeve_c2_collinear inner_point_def
        length2_def js_or_def truthy_def minus_jsnum_def Math_max_def)
  ultimately show ?thesis
    by (simp add: sleeve_outer_collinear sleeve_c2_collinear)
qed

section \<open>The ray test of a picker\<close>

lemma dot3_commute: "dot3 a b = dot3 b a"
  by (cases a; cases b) (simp add: dot3_def mult.commute)

lemma distanceToPlane_finite:
  "distanceToPlane (Ray (toVector3 org) (toVector3 d)) (Plane (toVector3 nrm) (Fin c)) =
     (if dot3 nrm d = 0 then (if dot3 nrm org + c = 0 then Some (Fin 0) else None)
      else if 0 \<le> - (dot3 nrm org + c) / dot3 nrm d
           then Some (Fin (- (dot3 nrm org + c) / dot3 nrm d)) else None)"
  by (simp add: distanceToPlane_def distanceToPoint_def Let_def dot3_commute [of org nrm]
      jsnum_simps vec3_simps)

lemma ray_at_finite:
  "ray_at (Ray (toVector3 org) (toVector3 d)) (Fin t) = toVector3 (point_at org d t)"
  by (cases org; cases d) (simp add: ray_at_def point_at_def toVector3_def)

lemma distanceTo_finite: "distanceTo (toVector3 a) (toVector3 b) = Fin (norm3 (sub3 a b))"
  by (cases a; cases b)
    (simp add: distanceTo_def Let_def toVector3_def norm3_def dot3_def sub3_def not_less
      add_nonneg_nonneg jsnum_simps)

lemma point_at_zero: "point_at org d 0 = org"
  by (cases org; cases d) (simp add: point_at_def)

lemma dot3_point_at: "dot3 nrm (point_at org d t) = dot3 nrm org + t * dot3 nrm d"
  by (cases nrm; cases org; cases d) (simp add: dot3_def point_at_def algebra_simps)

lemma meets_plane_unique:
  assumes "dot3 nrm d \<noteq> 0"
  shows "meets_plane org d nrm c h \<longleftrightarrow>
     0 \<le> - (dot3 nrm org + c) / dot3 nrm d \<and> h = point_at org d (- (dot3 nrm org + c) / dot3 nrm d)"
proof -
  have "dot3 nrm (point_at org d t) + c = 0 \<longleftrightarrow> t = - (dot3 nrm org + c) / dot3 nrm d" for t
    using assms by (simp add: dot3_point_at field_simps) (auto simp: algebra_simps)
  then show ?thesis
    unfolding meets_plane_def by auto
qed

lemma not_less_Fin: "a \<noteq> NaN \<Longrightarrow> (\<not> Fin x < a) = (a \<le> Fin x)"
  by (cases a) auto

lemma not_greater_Fin: "a \<noteq> NaN \<Longrightarrow> (\<not> a < Fin x) = (Fin x \<le> a)"
  by (cases a) auto

lemma raycast_Some:
  assumes "intersectPlane (rc_ray rc) (pk_plane this) = Some (toVector3 h)"
    and "rc_ray rc = Ray (toVector3 org) (toVector3 d)"
    and "near rc \<noteq> NaN" and "far rc \<noteq> NaN"
  shows "raycast this rc ins =
     (if near rc \<le> Fin (norm3 (sub3 org h)) \<and> Fin (norm3 (sub3 org h)) \<le> far rc
         \<and> accepts this (toVector3 h)
      then ins @ [hit_record this org h] else ins)"
  using assms not_less_Fin [OF assms(3)] not_greater_Fin [OF assms(4)]
  by (auto simp: raycast_def Let_def distanceTo_finite accepts_def hit_record_def)

lemma raycast_None:
  "intersectPlane (rc_ray rc) (pk_plane this) = None \<Longrightarrow> raycast this rc ins = ins"
  by (simp add: raycast_def)

text \<open>
  C1, as amended. For a picker whose plane is finite, as the plane of every picker built
  from a loop of finite points is, a ray of finite origin and direction and bounds other
  than \<open>NaN\<close>: if the ray is not parallel to the plane, \<open>raycast\<close> pushes a record
  exactly when the ray meets the plane, in the one point \<open>h\<close> where it can, the distance
  from the origin to \<open>h\<close> is within the bounds and the classifier accepts \<open>h\<close>, and
  the record carries that distance and \<open>h\<close>; if the ray is parallel to the plane, it
  pushes a record exactly when the origin is on the plane, 0 is within the bounds and
  the classifier accepts the origin, which is then the point of the record, at distance
  0. In every other case the array is returned as it was.
\<close>

theorem raycast_reports:
  assumes "pk_plane this = Plane (toVector3 nrm) (Fin c)"
    and "rc_ray rc = Ray (toVector3 org) (toVector3 d)"
    and "near rc \<noteq> NaN" and "far rc \<noteq> NaN"
  shows "(dot3 nrm d \<noteq> 0 \<longrightarrow>
           (\<forall>h. meets_plane org d nrm c h \<longrightarrow>
              raycast this rc ins =
                (if near rc \<le> Fin (norm3 (sub3 org h)) \<and> Fin (norm3 (sub3 org h)) \<le> far rc
                    \<and> accepts this (toVector3 h)
                 then ins @ [hit_record this org h] else ins))
           \<and> ((\<forall>h. \<not> meets_plane org d nrm c h) \<longrightarrow> raycast this rc ins = ins))
       \<and> (dot3 nrm d = 0 \<longrightarrow>
             raycast this rc ins =
               (if dot3 nrm org + c = 0 \<and> near rc \<le> Fin 0 \<and> Fin 0 \<le> far rc
                   \<and> accepts this (toVector3 org)
                then ins @ [hit_record this org org] else ins))"
proof (intro conjI impI allI)
  fix h
  assume nz: "dot3 nrm d \<noteq> 0" and m: "meets_plane org d nrm c h"
  from m have t: "0 \<le> - (dot3 nrm org + c) / dot3 nrm d"
      and h: "h = point_at org d (- (dot3 nrm org + c) / dot3 nrm d)"
    unfolding meets_plane_unique [OF nz] by simp_all
  have "intersectPlane (rc_ray rc) (pk_plane this) = Some (toVector3 h)"
    using nz t by (simp add: intersectPlane_def assms(1,2) distanceToPlane_finite ray_at_finite h)
  from raycast_Some [OF this assms(2,3,4)]
  show "raycast this rc ins =
      (if near rc \<le> Fin (norm3 (sub3 org h)) \<and> Fin (norm3 (sub3 org h)) \<le> far rc
          \<and> accepts this (toVector3 h)
       then ins @ [hit_record this org h] else ins)" .
next
  assume nz: "dot3 nrm d \<noteq> 0" and no: "\<forall>h. \<not> meets_plane org d nrm c h"
  have "\<not> 0 \<le> - (dot3 nrm org + c) / dot3 nrm d"
    using no meets_plane_unique [OF nz, of org c] by blast
  then have "intersectPlane (rc_ray rc) (pk_plane this) = None"
    using nz by (simp add: intersectPlane_def assms(1,2) distanceToPlane_finite)
  then show "raycast this rc ins = ins" by (rule raycast_None)
next
  assume z: "dot3 nrm d = 0"
  show "raycast this rc ins =
      (if dot3 nrm org + c = 0 \<and> near rc \<le> Fin 0 \<and> Fin 0 \<le> far rc
          \<and> accepts this (toVector3 org)
       then ins @ [hit_record this org org] else ins)"
  proof (cases "dot3 nrm org + c = 0")
    case True
    have "intersectPlane (rc_ray rc) (pk_plane this) = Some (toVector3 org)"
      using z True
      by (simp add: intersectPlane_def assms(1,2) distanceToPlane_finite ray_at_finite
          point_at_zero)
    from raycast_Some [OF this assms(2,3,4)] True show ?thesis
      by (cases org) (simp add: norm3_def dot3_def sub3_def)
  next
    case False
    have "intersectPlane (rc_ray rc) (pk_plane this) = None"
      using z False by (simp add: intersectPlane_def assms(1,2) distanceToPlane_finite)
    with False show ?thesis by (simp add: raycast_None)
  qed
qed

lemma sqrt_64: "sqrt 64 = 8"
  by (rule real_sqrt_unique) simp_all

lemma sqrt_25: "sqrt 25 = 5"
  by (rule real_sqrt_unique) simp_all

lemma unit3_square: "unit3 (0, 0, 8) = (0, 0, 1)"
  by (simp add: unit3_def norm3_def dot3_def sqrt_64)

lemma centroid3_square: "centroid3 square_loop = (1, 1, 0)"
  by (simp add: centroid3_def square_loop_def)

lemma newellPlane_square:
  "newellPlane (map toVector3 square_loop) = (toVector3 (0, 0, 1), toVector3 (1, 1, 0))"
proof -
  have "square_loop \<noteq> []" by (simp add: square_loop_def)
  then show ?thesis
    by (simp add: newellPlane_lift newell_acc_square unit3_square centroid3_square)
qed

lemma basis_square:
  "unit3 (0, 0, 1) = (0, 0, 1)" "basis_u (0, 0, 1) = (- 1, 0, 0)" "basis_v (0, 0, 1) = (0, - 1, 0)"
proof -
  show n: "unit3 (0, 0, 1) = (0, 0, 1)" by (simp add: unit3_def norm3_def dot3_def)
  have u1: "unit3 (- 1, 0, 0) = (- 1, 0, 0)" by (simp add: unit3_def norm3_def dot3_def)
  have v1: "unit3 (0, - 1, 0) = (0, - 1, 0)" by (simp add: unit3_def norm3_def dot3_def)
  show u: "basis_u (0, 0, 1) = (- 1, 0, 0)"
    by (simp add: basis_u_def n basis_t_def cross3_def u1)
  show "basis_v (0, 0, 1) = (0, - 1, 0)"
    by (simp add: basis_v_def n u cross3_def v1)
qed

lemma toLocal_square:
  "frame_toLocal (buildBasis (toVector3 (0, 0, 1)) (toVector3 (1, 1, 0))) =
     Matrix4 (Fin (- 1)) (Fin 0) (Fin 0) (Fin 0) (Fin 0) (Fin (- 1)) (Fin 0) (Fin 0)
       (Fin 0) (Fin 0) (Fin 1) (Fin 0) (Fin 1) (Fin 1) (Fin 0) (Fin 1)"
  by (simp add: buildBasis_toVector3 basis_square basis_matrix Let_def jsnum_simps)

lemma square_picker_fields:
  "pk_plane square_picker = Plane (toVector3 (0, 0, 1)) (Fin 0)"
  "toLocal square_picker =
     Matrix4 (Fin (- 1)) (Fin 0) (Fin 0) (Fin 0) (Fin 0) (Fin (- 1)) (Fin 0) (Fin 0)
       (Fin 0) (Fin 0) (Fin 1) (Fin 0) (Fin 1) (Fin 1) (Fin 0) (Fin 1)"
  "poly2 square_picker =
     [Vector2 (Fin 1) (Fin 1), Vector2 (Fin (- 1)) (Fin 1), Vector2 (Fin (- 1)) (Fin (- 1)),
      Vector2 (Fin 1) (Fin (- 1))]"
  "edgeBuffer square_picker = Fin (1 / 10)"
proof -
  show "pk_plane square_picker = Plane (toVector3 (0, 0, 1)) (Fin 0)"
    by (simp add: square_picker_def new_ToothPicker_def Let_def newellPlane_square
        setFromNormalAndCoplanarPoint_def dot3_def vec3_simps)
  show "toLocal square_picker =
     Matrix4 (Fin (- 1)) (Fin 0) (Fin 0) (Fin 0) (Fin 0) (Fin (- 1)) (Fin 0) (Fin 0)
       (Fin 0) (Fin 0) (Fin 1) (Fin 0) (Fin 1) (Fin 1) (Fin 0) (Fin 1)"
    by (simp add: square_picker_def new_ToothPicker_def Let_def newellPlane_square toLocal_square)
  show "poly2 square_picker =
     [Vector2 (Fin 1) (Fin 1), Vector2 (Fin (- 1)) (Fin 1), Vector2 (Fin (- 1)) (Fin (- 1)),
      Vector2 (Fin 1) (Fin (- 1))]"
    by (simp add: square_picker_def new_ToothPicker_def Let_def newellPlane_square toLocal_square)
      (simp add: square_loop_def toVector3_def applyMatrix4_affine)
  show "edgeBuffer square_picker = Fin (1 / 10)"
    by (simp add: square_picker_def new_ToothPicker_def Let_def newellPlane_square)
qed

lemma accepts_square_centre: "accepts square_picker (toVector3 (1, 1, 0))"
  by (simp add: accepts_def square_picker_fields toVector3_def applyMatrix4_affine
      pointInPolygon2D_def crosses_def jsnum_simps)

lemma sqrt_400: "sqrt (1 / 400) = 1 / 20"
  by (rule real_sqrt_unique) (simp_all add: power2_eq_square)

lemma hypot_Fin: "Math_hypot (Fin a) (Fin b) = Fin (sqrt (a * a + b * b))"
  by (simp add: Math_hypot_def not_less add_nonneg_nonneg)

lemma accepts_square_near_edge: "accepts square_picker (toVector3 (1, - (1 / 20), 0))"
  by (simp add: accepts_def square_picker_fields toVector3_def applyMatrix4_affine
      distanceToPolygon2D_def pointToSegmentDistance2D_def pointInPolygon2D_def crosses_def
      Let_def jsnum_simps Math_max_Fin Math_min_def hypot_Fin sqrt_400 real_sqrt_less_iff)

lemma accepts_square_outside: "\<not> accepts square_picker (toVector3 (1, - 1, 0))"
  by (simp add: accepts_def square_picker_fields toVector3_def applyMatrix4_affine
      distanceToPolygon2D_def pointToSegmentDistance2D_def pointInPolygon2D_def crosses_def
      Let_def jsnum_simps Math_max_Fin Math_min_def hypot_Fin real_sqrt_less_iff)

lemma down_ray_meets: "meets_plane (x, y, 5) (0, 0, - 1) (0, 0, 1) 0 (x, y, 0)"
  unfolding meets_plane_def by (rule exI [of _ 5]) (simp add: point_at_def dot3_def)

lemma down_ray_distance: "norm3 (sub3 (x, y, 5) (x, y, 0)) = 5"
  by (simp add: norm3_def sub3_def dot3_def sqrt_25)

text \<open>
  The three rays of the square scenario with edge buffer 0.1: through \<open>(1, 1, 0)\<close>,
  inside, a hit at distance 5; through \<open>(1, -0.05, 0)\<close>, outside and 0.05 from an edge,
  a hit; through \<open>(1, -1, 0)\<close>, no hit.
\<close>

theorem raycast_reports_witness:
  "raycast square_picker (down_ray 1 1) [] = [hit_record square_picker (1, 1, 5) (1, 1, 0)]
   \<and> hit_distance (hit_record square_picker (1, 1, 5) (1, 1, 0)) = Fin 5
   \<and> raycast square_picker (down_ray 1 (- (1 / 20))) []
       = [hit_record square_picker (1, - (1 / 20), 5) (1, - (1 / 20), 0)]
   \<and> raycast square_picker (down_ray 1 (- 1)) [] = []"
proof -
  have nz: "dot3 (0, 0, 1) (0, 0, - 1) \<noteq> 0" by (simp add: dot3_def)
  have r: "raycast square_picker (down_ray x y) [] =
      (if accepts square_picker (toVector3 (x, y, 0))
       then [hit_record square_picker (x, y, 5) (x, y, 0)] else [])" for x y
    using raycast_reports [of square_picker "(0, 0, 1)" 0 "down_ray x y" "(x, y, 5)"
        "(0, 0, - 1)" "[]"] nz down_ray_meets [of x y]
    by (simp add: square_picker_fields down_ray_def down_ray_distance)
  show ?thesis
    by (simp add: r accepts_square_centre accepts_square_near_edge accepts_square_outside
        hit_record_def down_ray_distance)
qed

lemma new_ToothPicker_plane:
  assumes "pts \<noteq> []"
  shows "pk_plane (new_ToothPicker n (map toVector3 pts) eb) =
     Plane (toVector3 (unit3 (newell_acc pts)))
       (Fin (- dot3 (centroid3 pts) (unit3 (newell_acc pts))))"
  using assms
  by (simp add: new_ToothPicker_def Let_def newellPlane_lift setFromNormalAndCoplanarPoint_def
      vec3_simps)

lemma accepts_square_inner: "accepts square_picker (toVector3 (3 / 2, 1, 0))"
  by (simp add: accepts_def square_picker_fields toVector3_def applyMatrix4_affine
      pointInPolygon2D_def crosses_def jsnum_simps)

text \<open>
  The claim as stated fails for a ray that lies in the plane of the square picker. With
  \<open>near = 0\<close> a hit is reported for this ray, which is parallel to the plane; with
  \<open>near = 0.1\<close> nothing is reported, although the ray meets the plane in
  \<open>(1.5, 1, 0)\<close>, at distance 0.5 and inside the polygon.
\<close>

theorem raycast_in_plane_ray:
  "dot (plane_normal (pk_plane square_picker)) (toVector3 (1, 0, 0)) = Fin 0
   \<and> raycast square_picker
       \<lparr> rc_ray = Ray (toVector3 (1, 1, 0)) (toVector3 (1, 0, 0)), near = Fin 0, far = Fin 100 \<rparr> []
     = [\<lparr> hit_object = square_picker, hit_distance = Fin 0, hit_point = toVector3 (1, 1, 0),
          hit_faceIndex = 0, hit_uv = Vector2 (Fin 0) (Fin 0) \<rparr>]
   \<and> raycast square_picker
       \<lparr> rc_ray = Ray (toVector3 (1, 1, 0)) (toVector3 (1, 0, 0)), near = Fin (1 / 10),
         far = Fin 100 \<rparr> [] = []
   \<and> meets_plane (1, 1, 0) (1, 0, 0) (0, 0, 1) 0 (3 / 2, 1, 0)
   \<and> norm3 (sub3 (1, 1, 0) (3 / 2, 1, 0)) = 1 / 2
   \<and> accepts square_picker (toVector3 (3 / 2, 1, 0))"
proof -
  have i: "intersectPlane (Ray (toVector3 (1, 1, 0)) (toVector3 (1, 0, 0))) (pk_plane square_picker)
      = Some (toVector3 (1, 1, 0))"
    by (simp add: intersectPlane_def square_picker_fields distanceToPlane_finite dot3_def
        ray_at_finite point_at_zero)
  have z: "norm3 (sub3 (1, 1, 0) (1, 1, 0)) = 0"
    by (simp add: norm3_def sub3_def dot3_def)
  have m: "meets_plane (1, 1, 0) (1, 0, 0) (0, 0, 1) 0 (3 / 2, 1, 0)"
    unfolding meets_plane_def by (rule exI [of _ "1 / 2"]) (simp add: point_at_def dot3_def)
  have "sqrt (1 / 4) = 1 / 2"
    by (rule real_sqrt_unique) (simp_all add: power2_eq_square)
  then have h: "norm3 (sub3 (1, 1, 0) (3 / 2, 1, 0)) = 1 / 2"
    by (simp add: norm3_def sub3_def dot3_def)
  show ?thesis
    using i z m h accepts_square_centre accepts_square_inner
    by (simp add: raycast_def Let_def distanceTo_finite accepts_def square_picker_fields dot3_def
        vec3_simps)
qed

end
